theory Spec2Isabelle
  imports Complex_Main
begin

section \<open>Loss functions of paddlespeech/t2s/modules/losses.py\<close>

text \<open>
  The losses are numerical formulas over tensors. Tensor entries are modelled as
  exact reals (\<^typ>\<open>real\<close>): rounding of the floating-point types is not modelled.
  A tensor of a fixed, documented rank is a rectangular nested list (a tensor of shape
  (B, N, T) is a list of B lists of N lists of T reals), a tensor of lengths a list of
  integers. Operands are taken to have the shapes the docstrings document; the tensor
  library rejects operands that cannot be broadcast against each other before any
  arithmetic happens. Exceptions that the Python code itself raises are values of the
  type \<open>error\<close>.
\<close>

subsection \<open>Errors raised by the Python code\<close>

datatype error =
    ValueError
  | IndexError
  | AssertionError
  | UnboundLocalError
  | ZeroDivisionError
  | FrameworkError

subsection \<open>Tensor primitives used by the losses\<close>

text \<open>\<open>paddle.arange(0, n)\<close> cast to a floating dtype.\<close>

definition arange :: "nat \<Rightarrow> real list" where
  "arange n = map real [0..<n]"

text \<open>\<open>sequence_mask(lens, maxlen)\<close>: entry (i, j) is 1 when \<open>j < lens[i]\<close>, else 0.\<close>

definition sequence_mask :: "int list \<Rightarrow> nat \<Rightarrow> int list list" where
  "sequence_mask lens maxlen =
     map (\<lambda>l. map (\<lambda>j. if int j < l then 1 else 0) [0..<maxlen]) lens"

text \<open>The built-in \<open>max\<close> of Python raises \<open>ValueError\<close> on an empty sequence.\<close>

fun py_max :: "nat list \<Rightarrow> error + nat" where
  "py_max [] = Inl ValueError"
| "py_max (x # xs) = Inr (fold max xs x)"

text \<open>
  \<open>x.masked_select(mask)\<close> on the flattened operands: the entries of \<open>x\<close> whose mask
  is true, as a one-dimensional tensor; \<open>paddle.mean\<close> over all entries.
\<close>

definition masked_select :: "real list \<Rightarrow> bool list \<Rightarrow> real list" where
  "masked_select xs ms = map fst (filter snd (zip xs ms))"

definition mean :: "real list \<Rightarrow> real" where
  "mean xs = sum_list xs / real (length xs)"

text \<open>\<open>t.unsqueeze(1)\<close>: a new axis of size one after the batch axis.\<close>

definition unsqueeze1 :: "'a list \<Rightarrow> 'a list list" where
  "unsqueeze1 t = map (\<lambda>x. [x]) t"

text \<open>Broadcasting along one axis: an operand of size one is repeated.\<close>

definition broadcast_axis :: "('a \<Rightarrow> 'b \<Rightarrow> 'c) \<Rightarrow> 'a list \<Rightarrow> 'b list \<Rightarrow> 'c list" where
  "broadcast_axis f xs ys =
     (case xs of [x] \<Rightarrow> map (f x) ys
      | _ \<Rightarrow> (case ys of [y] \<Rightarrow> map (\<lambda>x. f x y) xs | _ \<Rightarrow> map2 f xs ys))"

subsection \<open>Tensors of any rank, with broadcasting\<close>

text \<open>
  \<open>weighted_mean\<close>, \<open>masked_l1_loss\<close> and the adversarial criteria accept tensors of
  any rank. Such a tensor is a scalar entry or a list of sub-tensors along its first
  axis; a reduction to one number is returned as a tensor of shape [1], as the
  docstrings say.
\<close>

datatype tensor = Scalar real | Tensor "tensor list"

text \<open>The entries in row-major order, their number, and the shape.\<close>

fun flatten :: "tensor \<Rightarrow> real list" where
  "flatten (Scalar x) = [x]"
| "flatten (Tensor ts) = concat (map flatten ts)"

definition numel :: "tensor \<Rightarrow> nat" where
  "numel t = length (flatten t)"

fun shape :: "tensor \<Rightarrow> nat list" where
  "shape (Scalar x) = []"
| "shape (Tensor ts) = length ts # (case ts of [] \<Rightarrow> [] | t # _ \<Rightarrow> shape t)"

fun rectangular :: "tensor \<Rightarrow> bool" where
  "rectangular (Scalar x) = True"
| "rectangular (Tensor ts) = list_all (\<lambda>t. rectangular t \<and> shape t = shape (hd ts)) ts"

text \<open>
  Two shapes can be broadcast against each other when, aligned at the last axis, the
  sizes agree or one of them is 1.
\<close>

fun broadcastable_rev :: "nat list \<Rightarrow> nat list \<Rightarrow> bool" where
  "broadcastable_rev [] _ = True"
| "broadcastable_rev _ [] = True"
| "broadcastable_rev (a # as) (b # bs) = ((a = b \<or> a = 1 \<or> b = 1) \<and> broadcastable_rev as bs)"

definition broadcastable :: "tensor \<Rightarrow> tensor \<Rightarrow> bool" where
  "broadcastable a b = broadcastable_rev (rev (shape a)) (rev (shape b))"

text \<open>
  An element-wise binary operator with broadcasting: the operand of lower rank is
  repeated along the leading axes of the other, an axis of size one along the
  matching axis of the other.
\<close>

lemma size_tensor_mem: "x \<in> set xs \<Longrightarrow> size (x :: tensor) \<le> size_list size xs"
  by (induction xs) auto

lemma size_tensor_zip:
  "(a, b) \<in> set (zip xs ys) \<Longrightarrow>
     size (a :: tensor) + size (b :: tensor) \<le> size_list size xs + size_list size ys"
proof -
  assume z: "(a, b) \<in> set (zip xs ys)"
  have "a \<in> set xs" and "b \<in> set ys"
    using z by (auto dest: set_zip_leftD set_zip_rightD)
  then show ?thesis
    using size_tensor_mem [of a xs] size_tensor_mem [of b ys] by linarith
qed

function elementwise :: "(real \<Rightarrow> real \<Rightarrow> real) \<Rightarrow> tensor \<Rightarrow> tensor \<Rightarrow> tensor" where
  "elementwise f (Scalar x) (Scalar y) = Scalar (f x y)"
| "elementwise f (Scalar x) (Tensor ys) = Tensor (map (elementwise f (Scalar x)) ys)"
| "elementwise f (Tensor xs) (Scalar y) = Tensor (map (\<lambda>x. elementwise f x (Scalar y)) xs)"
| "elementwise f (Tensor xs) (Tensor ys) =
     (if length (shape (Tensor xs)) < length (shape (Tensor ys))
      then Tensor (map (elementwise f (Tensor xs)) ys)
      else if length (shape (Tensor ys)) < length (shape (Tensor xs))
      then Tensor (map (\<lambda>x. elementwise f x (Tensor ys)) xs)
      else (case xs of
              [x] \<Rightarrow> Tensor (map (elementwise f x) ys)
            | _ \<Rightarrow> (case ys of
                      [y] \<Rightarrow> Tensor (map (\<lambda>x. elementwise f x y) xs)
                    | _ \<Rightarrow> Tensor (map2 (elementwise f) xs ys))))"
  by pat_completeness auto
termination
  apply (relation "measure (\<lambda>(f, a, b). size a + size b)")
  apply (auto dest!: size_tensor_mem size_tensor_zip)
  done


text \<open>\<open>paddle.sum\<close> over all entries.\<close>

definition sum_all :: "tensor \<Rightarrow> real" where
  "sum_all t = sum_list (flatten t)"

text \<open>\<open>a * b\<close>; the library raises when the shapes cannot be broadcast.\<close>

definition tensor_multiply :: "tensor \<Rightarrow> tensor \<Rightarrow> error + tensor" where
  "tensor_multiply a b =
     (if broadcastable a b then Inr (elementwise (*) a b) else Inl FrameworkError)"

text \<open>\<open>F.l1_loss(input, label, reduction='none')\<close>: the element-wise absolute error.\<close>

definition l1_loss_none :: "tensor \<Rightarrow> tensor \<Rightarrow> error + tensor" where
  "l1_loss_none input label =
     (if broadcastable input label
      then Inr (elementwise (\<lambda>a b. \<bar>a - b\<bar>) input label)
      else Inl FrameworkError)"

subsection \<open>Tensors with their shape, and the library's shape checks\<close>

text \<open>
  Where the code can raise on a shape mismatch, a tensor is kept as the library holds
  it: its shape \<open>dims\<close> beside its entries (a nested list of that shape). The nested
  list alone would not tell the sizes of the axes inside an axis of size zero.
\<close>

record 'e shaped =
  dims :: "nat list"
  entries :: 'e

text \<open>
  The shape of the result of a broadcasting operator, on shapes aligned at the last
  axis (both lists reversed), and the test of \<open>t.broadcast_to(shape)\<close>: every axis of
  \<open>t\<close> has the size of the target or size one, and \<open>t\<close> has no more axes than the
  target.
\<close>

fun broadcast_dims_rev :: "nat list \<Rightarrow> nat list \<Rightarrow> nat list" where
  "broadcast_dims_rev [] bs = bs"
| "broadcast_dims_rev xs [] = xs"
| "broadcast_dims_rev (a # xs) (b # bs) = (if a = 1 then b else a) # broadcast_dims_rev xs bs"

fun expandable_rev :: "nat list \<Rightarrow> nat list \<Rightarrow> bool" where
  "expandable_rev [] bs = True"
| "expandable_rev (a # xs) [] = False"
| "expandable_rev (a # xs) (b # bs) = ((a = b \<or> a = 1) \<and> expandable_rev xs bs)"

text \<open>
  An element-wise binary operator of the library: it raises unless the two shapes can
  be broadcast against each other; \<open>f\<close> computes the entries of the result.
  \<open>broadcast_to_like m t\<close> is \<open>m.broadcast_to(t.shape)\<close>.
\<close>

definition broadcast_op :: "('e \<Rightarrow> 'f \<Rightarrow> 'g) \<Rightarrow> 'e shaped \<Rightarrow> 'f shaped \<Rightarrow> error + 'g shaped" where
  "broadcast_op f a b =
     (if broadcastable_rev (rev (dims a)) (rev (dims b))
      then Inr \<lparr>dims = rev (broadcast_dims_rev (rev (dims a)) (rev (dims b))),
                entries = f (entries a) (entries b)\<rparr>
      else Inl FrameworkError)"

definition broadcast_to_like ::
  "('e \<Rightarrow> 'f \<Rightarrow> 'e) \<Rightarrow> 'e shaped \<Rightarrow> 'f shaped \<Rightarrow> error + 'e shaped" where
  "broadcast_to_like f m t =
     (if expandable_rev (rev (dims m)) (rev (dims t))
      then Inr \<lparr>dims = dims t, entries = f (entries m) (entries t)\<rparr>
      else Inl FrameworkError)"

text \<open>\<open>t.unsqueeze(k)\<close> on the shape: a new axis of size one at position \<open>k\<close>.\<close>

definition insert_axis :: "nat \<Rightarrow> nat list \<Rightarrow> nat list" where
  "insert_axis k d = take k d @ 1 # drop k d"

text \<open>
  Modelled from the spec: \<open>make_non_pad_mask\<close> is imported from
  \<open>paddlespeech.t2s.modules.nets_utils\<close>, which is not among the sources at hand. The
  docstring of \<open>_make_masks\<close> shows what it returns: for lengths (B,) a mask of shape
  (B, max length) that is true exactly on the non-padded positions \<open>j < lengths[i]\<close>.
\<close>

definition make_non_pad_mask :: "nat list \<Rightarrow> error + bool list list shaped" where
  "make_non_pad_mask lengths =
     (case py_max lengths of
        Inl e \<Rightarrow> Inl e
      | Inr maxlen \<Rightarrow>
          Inr \<lparr>dims = [length lengths, maxlen],
               entries = map (\<lambda>l. map (\<lambda>j. j < l) [0..<maxlen]) lengths\<rparr>)"

subsection \<open>Class \<open>GuidedAttentionLoss\<close> and its subclass \<open>GuidedMultiHeadAttentionLoss\<close>\<close>

text \<open>
  The module object: the constructor arguments and the two cached mask fields, which
  hold \<open>None\<close> or a tensor (of rank 3 in the base class, of rank 4 in the subclass).
\<close>

record ('g, 'm) GuidedAttentionLoss =
  sigma :: real
  alpha :: real
  reset_always :: bool
  guided_attn_masks :: "'g option"
  masks :: "'m option"

type_synonym GuidedAttentionLoss3 =
  "(real list list list shaped, bool list list list shaped) GuidedAttentionLoss"

type_synonym GuidedAttentionLoss4 =
  "(real list list list list shaped, bool list list list list shaped) GuidedAttentionLoss"

definition GuidedAttentionLoss_init ::
  "real \<Rightarrow> real \<Rightarrow> bool \<Rightarrow> ('g, 'm) GuidedAttentionLoss" where
  "GuidedAttentionLoss_init sg al ra =
     \<lparr>sigma = sg, alpha = al, reset_always = ra, guided_attn_masks = None, masks = None\<rparr>"

definition reset_masks :: "('g, 'm) GuidedAttentionLoss \<Rightarrow> ('g, 'm) GuidedAttentionLoss" where
  "reset_masks self = self\<lparr>guided_attn_masks := None, masks := None\<rparr>"

text \<open>
  \<open>_make_guided_attention_mask\<close>: \<open>meshgrid(arange(olen), arange(ilen))\<close> gives
  \<open>grid_x[x][y] = x\<close> and \<open>grid_y[x][y] = y\<close>, both of shape (olen, ilen).
\<close>

definition make_guided_attention_mask :: "nat \<Rightarrow> nat \<Rightarrow> real \<Rightarrow> real list list" where
  "make_guided_attention_mask ilen olen sg =
     map (\<lambda>x. map (\<lambda>y. 1 - exp (- ((real y / real ilen - real x / real olen)\<^sup>2) / (2 * sg\<^sup>2)))
                  [0..<ilen]) [0..<olen]"

text \<open>
  The slice assignment \<open>zeros[idx, :olen, :ilen] = block\<close> into one
  (max_olen, max_ilen) plane of zeros.
\<close>

definition assign_block :: "nat \<Rightarrow> nat \<Rightarrow> real list list \<Rightarrow> real list list" where
  "assign_block max_olen max_ilen block =
     map (\<lambda>row. row @ replicate (max_ilen - length row) 0) block
       @ replicate (max_olen - length block) (replicate max_ilen 0)"

text \<open>
  \<open>_make_guided_attention_masks\<close>: a tensor of shape (len(ilens), max_olen, max_ilen);
  the loop runs over \<open>zip(ilens, olens)\<close>, so planes past the shorter of the two stay
  zero.
\<close>

definition make_guided_attention_masks ::
  "real \<Rightarrow> nat list \<Rightarrow> nat list \<Rightarrow> error + real list list list shaped" where
  "make_guided_attention_masks sg ilens olens =
     (case py_max ilens of
        Inl e \<Rightarrow> Inl e
      | Inr max_ilen \<Rightarrow>
          (case py_max olens of
             Inl e \<Rightarrow> Inl e
           | Inr max_olen \<Rightarrow>
               Inr \<lparr>dims = [length ilens, max_olen, max_ilen],
                    entries =
                      map (\<lambda>idx.
                             if idx < length olens
                             then assign_block max_olen max_ilen
                                    (make_guided_attention_mask (ilens ! idx) (olens ! idx) sg)
                             else replicate max_olen (replicate max_ilen 0))
                          [0..<length ilens]\<rparr>))"

text \<open>
  \<open>_make_masks\<close>: \<open>logical_and\<close> of \<open>out_masks.unsqueeze(-1)\<close>, of shape (B, T_out, 1),
  and \<open>in_masks.unsqueeze(-2)\<close>, of shape (B, 1, T_in). It raises when the two batch
  sizes differ and none of them is one.
\<close>

definition make_masks :: "nat list \<Rightarrow> nat list \<Rightarrow> error + bool list list list shaped" where
  "make_masks ilens olens =
     (case make_non_pad_mask ilens of
        Inl e \<Rightarrow> Inl e
      | Inr in_masks \<Rightarrow>
          (case make_non_pad_mask olens of
             Inl e \<Rightarrow> Inl e
           | Inr out_masks \<Rightarrow>
               broadcast_op
                 (broadcast_axis (broadcast_axis (broadcast_axis (\<and>))))
                 \<lparr>dims = insert_axis 2 (dims out_masks),
                  entries = map (map (\<lambda>a. [a])) (entries out_masks)\<rparr>
                 \<lparr>dims = insert_axis 1 (dims in_masks),
                  entries = map (\<lambda>row. [row]) (entries in_masks)\<rparr>))"

text \<open>
  \<open>forward\<close> returns its value (or the exception it raises) together with the module
  object as the call leaves it. The two fields are assigned before the product
  \<open>self.guided_attn_masks * att_ws\<close> and \<open>self.masks.broadcast_to(losses.shape)\<close> can
  raise on a shape mismatch, and nothing resets them on that path: an exception
  leaves the fields as they were assigned up to that point.
\<close>

definition GuidedAttentionLoss_forward ::
  "GuidedAttentionLoss3 \<Rightarrow> real list list list shaped \<Rightarrow> nat list \<Rightarrow> nat list
     \<Rightarrow> (error + real) \<times> GuidedAttentionLoss3" where
  "GuidedAttentionLoss_forward self att_ws ilens olens =
     (case (case guided_attn_masks self of
              None \<Rightarrow> make_guided_attention_masks (sigma self) ilens olens
            | Some g \<Rightarrow> Inr g) of
        Inl e \<Rightarrow> (Inl e, self)
      | Inr g \<Rightarrow>
          (let self1 = self\<lparr>guided_attn_masks := Some g\<rparr> in
           case (case masks self1 of
                   None \<Rightarrow> make_masks ilens olens
                 | Some m \<Rightarrow> Inr m) of
             Inl e \<Rightarrow> (Inl e, self1)
           | Inr m \<Rightarrow>
               (let self2 = self1\<lparr>masks := Some m\<rparr> in
                case broadcast_op (broadcast_axis (broadcast_axis (broadcast_axis (*))))
                       g att_ws of
                  Inl e \<Rightarrow> (Inl e, self2)
                | Inr losses \<Rightarrow>
                    (case broadcast_to_like
                            (broadcast_axis (broadcast_axis (broadcast_axis (\<lambda>mk (l :: real). mk))))
                            m losses of
                       Inl e \<Rightarrow> (Inl e, self2)
                     | Inr sel \<Rightarrow>
                         (let loss = mean (masked_select (concat (concat (entries losses)))
                                             (concat (concat (entries sel))));
                              self3 = (if reset_always self2 then reset_masks self2 else self2)
                          in (Inr (alpha self2 * loss), self3))))))"

text \<open>
  The subclass keeps the masks with a head axis of size one (\<open>unsqueeze(1)\<close>), which
  broadcasts against the H heads of \<open>att_ws\<close> (B, H, T_max_out, T_max_in).
\<close>

definition GuidedMultiHeadAttentionLoss_forward ::
  "GuidedAttentionLoss4 \<Rightarrow> real list list list list shaped \<Rightarrow> nat list \<Rightarrow> nat list
     \<Rightarrow> (error + real) \<times> GuidedAttentionLoss4" where
  "GuidedMultiHeadAttentionLoss_forward self att_ws ilens olens =
     (case (case guided_attn_masks self of
              None \<Rightarrow> (case make_guided_attention_masks (sigma self) ilens olens of
                          Inl e \<Rightarrow> Inl e
                        | Inr g \<Rightarrow> Inr \<lparr>dims = insert_axis 1 (dims g),
                                        entries = unsqueeze1 (entries g)\<rparr>)
            | Some g \<Rightarrow> Inr g) of
        Inl e \<Rightarrow> (Inl e, self)
      | Inr g \<Rightarrow>
          (let self1 = self\<lparr>guided_attn_masks := Some g\<rparr> in
           case (case masks self1 of
                   None \<Rightarrow> (case make_masks ilens olens of
                               Inl e \<Rightarrow> Inl e
                             | Inr m \<Rightarrow> Inr \<lparr>dims = insert_axis 1 (dims m),
                                             entries = unsqueeze1 (entries m)\<rparr>)
                 | Some m \<Rightarrow> Inr m) of
             Inl e \<Rightarrow> (Inl e, self1)
           | Inr m \<Rightarrow>
               (let self2 = self1\<lparr>masks := Some m\<rparr> in
                case broadcast_op
                       (broadcast_axis (broadcast_axis (broadcast_axis (broadcast_axis (*)))))
                       g att_ws of
                  Inl e \<Rightarrow> (Inl e, self2)
                | Inr losses \<Rightarrow>
                    (case broadcast_to_like
                            (broadcast_axis (broadcast_axis (broadcast_axis
                               (broadcast_axis (\<lambda>mk (l :: real). mk)))))
                            m losses of
                       Inl e \<Rightarrow> (Inl e, self2)
                     | Inr sel \<Rightarrow>
                         (let loss = mean (masked_select
                                             (concat (concat (concat (entries losses))))
                                             (concat (concat (concat (entries sel)))));
                              self3 = (if reset_always self2 then reset_masks self2 else self2)
                          in (Inr (alpha self2 * loss), self3))))))"

text \<open>A sequence of \<open>forward\<close> calls on one module object, each with its own arguments.\<close>

fun GuidedAttentionLoss_calls ::
  "GuidedAttentionLoss3 \<Rightarrow> (real list list list shaped \<times> nat list \<times> nat list) list
     \<Rightarrow> (error + real) list \<times> GuidedAttentionLoss3" where
  "GuidedAttentionLoss_calls self [] = ([], self)"
| "GuidedAttentionLoss_calls self ((att_ws, ilens, olens) # cs) =
     (let (r, self1) = GuidedAttentionLoss_forward self att_ws ilens olens;
          (rs, self2) = GuidedAttentionLoss_calls self1 cs
      in (r # rs, self2))"

fun GuidedMultiHeadAttentionLoss_calls ::
  "GuidedAttentionLoss4 \<Rightarrow> (real list list list list shaped \<times> nat list \<times> nat list) list
     \<Rightarrow> (error + real) list \<times> GuidedAttentionLoss4" where
  "GuidedMultiHeadAttentionLoss_calls self [] = ([], self)"
| "GuidedMultiHeadAttentionLoss_calls self ((att_ws, ilens, olens) # cs) =
     (let (r, self1) = GuidedMultiHeadAttentionLoss_forward self att_ws ilens olens;
          (rs, self2) = GuidedMultiHeadAttentionLoss_calls self1 cs
      in (r # rs, self2))"

subsection \<open>Loss for Tacotron2: \<open>attention_guide\<close>\<close>

text \<open>
  \<open>dec_pos\<close> has shape (B, N), \<open>enc_pos\<close> shape (B, T); \<open>unsqueeze\<close> and
  broadcasting make \<open>W\<close> and \<open>mask\<close> of shape (B, N, T). In Python \<open>-x**2 / d\<close>
  is \<open>(-(x**2)) / d\<close>. The \<open>dtype\<close> argument selects the floating-point type of the
  result and has no counterpart over exact reals.
\<close>

definition attention_guide ::
  "int list \<Rightarrow> int list \<Rightarrow> nat \<Rightarrow> nat \<Rightarrow> real \<Rightarrow> real list list list" where
  "attention_guide dec_lens enc_lens N T g =
     (let dec_pos = map (\<lambda>d. map (\<lambda>n. n / real_of_int d) (arange N)) dec_lens;
          enc_pos = map (\<lambda>e. map (\<lambda>t. t / real_of_int e) (arange T)) enc_lens;
          W = map2 (\<lambda>dp ep. map (\<lambda>a. map (\<lambda>b. 1 - exp (- ((a - b)\<^sup>2) / (2 * g\<^sup>2))) ep) dp)
                dec_pos enc_pos;
          dec_mask = sequence_mask dec_lens N;
          enc_mask = sequence_mask enc_lens T;
          mask = map2 (\<lambda>dm em. map (\<lambda>a. map (\<lambda>b. a * b) em) dm) dec_mask enc_mask
      in map2 (map2 (map2 (\<lambda>w m. w * real_of_int m))) W mask)"

subsection \<open>Losses for GAN vocoders: STFT-based losses\<close>

text \<open>
  A waveform batch has shape (B, T) or (B, C, T).
\<close>

datatype signal = Signal2 "real list list" | Signal3 "real list list list"

text \<open>
  The library routines the losses call, which are no part of this file, are parameters
  of the model: \<open>scipy.signal.get_window(window, win_length, fftbins=True)\<close>,
  \<open>paddle.signal.stft(x, n_fft, hop_length, win_length, window, center, pad_mode,
  normalized, onesided)\<close> with its complex result of shape (B, freq, frames),
  \<open>hasattr(scipy.signal.windows, name)\<close> and \<open>librosa.filters.mel(sr, n_fft, n_mels,
  fmin, fmax)\<close>. All but \<open>hasattr\<close> may raise.
\<close>

record libraries =
  get_window :: "string \<Rightarrow> nat \<Rightarrow> error + real list"
  signal_stft :: "signal \<Rightarrow> nat \<Rightarrow> nat \<Rightarrow> nat \<Rightarrow> real list option \<Rightarrow> bool \<Rightarrow> string \<Rightarrow> bool \<Rightarrow> bool
                    \<Rightarrow> error + complex list list list"
  windows_hasattr :: "string \<Rightarrow> bool"
  librosa_mel :: "real \<Rightarrow> nat \<Rightarrow> nat \<Rightarrow> real \<Rightarrow> real \<Rightarrow> error + real list list"

text \<open>\<open>paddle.clip(t, min=m)\<close> on a tensor of rank 3.\<close>

definition clip_min :: "real list list list \<Rightarrow> real \<Rightarrow> real list list list" where
  "clip_min t m = map (map (map (\<lambda>v. max v m))) t"

text \<open>
  \<open>stft\<close>: the magnitude spectrogram (B, frames, freq), with \<open>center=True\<close> and
  \<open>pad_mode='reflect'\<close> as \<open>STFTLoss\<close> calls it.
\<close>

definition stft ::
  "libraries \<Rightarrow> signal \<Rightarrow> nat \<Rightarrow> nat \<Rightarrow> nat \<Rightarrow> string \<Rightarrow> error + real list list list" where
  "stft lib x fft_size hop_length win_length window =
     (case get_window lib window win_length of
        Inl e \<Rightarrow> Inl e
      | Inr w \<Rightarrow>
          (case signal_stft lib x fft_size hop_length win_length (Some w) True ''reflect''
                  False True of
             Inl e \<Rightarrow> Inl e
           | Inr x_stft \<Rightarrow>
               Inr (map transpose
                      (map (map (map sqrt))
                         (clip_min (map (map (map (\<lambda>c. (Re c)\<^sup>2 + (Im c)\<^sup>2))) x_stft)
                            (1 / 10 ^ 7))))))"

text \<open>\<open>paddle.norm(t, p="fro")\<close> over all entries.\<close>

definition frobenius_norm :: "real list list list \<Rightarrow> real" where
  "frobenius_norm t = sqrt (sum_list (map (\<lambda>v. v\<^sup>2) (concat (concat t))))"

text \<open>
  \<open>SpectralConvergenceLoss.forward\<close> divides by
  \<open>paddle.clip(paddle.norm(y_mag, p="fro"), min=1e-10)\<close>.
\<close>

definition SpectralConvergenceLoss_denominator :: "real list list list \<Rightarrow> real" where
  "SpectralConvergenceLoss_denominator y_mag = max (frobenius_norm y_mag) (1 / 10 ^ 10)"

definition SpectralConvergenceLoss_forward ::
  "real list list list \<Rightarrow> real list list list \<Rightarrow> real" where
  "SpectralConvergenceLoss_forward x_mag y_mag =
     frobenius_norm (map2 (map2 (map2 (-))) y_mag x_mag)
       / SpectralConvergenceLoss_denominator y_mag"

record LogSTFTMagnitudeLoss =
  epsilon :: real

definition LogSTFTMagnitudeLoss_init :: LogSTFTMagnitudeLoss where
  "LogSTFTMagnitudeLoss_init = \<lparr>epsilon = 1 / 10 ^ 7\<rparr>"

text \<open>
  \<open>F.l1_loss\<close> with the default reduction: the mean absolute difference of the
  logarithms of the clipped magnitudes.
\<close>

definition LogSTFTMagnitudeLoss_forward ::
  "LogSTFTMagnitudeLoss \<Rightarrow> real list list list \<Rightarrow> real list list list \<Rightarrow> real" where
  "LogSTFTMagnitudeLoss_forward self x_mag y_mag =
     mean (map2 (\<lambda>a b. \<bar>a - b\<bar>)
             (map ln (concat (concat (clip_min y_mag (epsilon self)))))
             (map ln (concat (concat (clip_min x_mag (epsilon self))))))"

record STFTLoss =
  fft_size :: nat
  shift_size :: nat
  win_length :: nat
  window :: string
  log_stft_magnitude_loss :: LogSTFTMagnitudeLoss

definition STFTLoss_init :: "nat \<Rightarrow> nat \<Rightarrow> nat \<Rightarrow> string \<Rightarrow> STFTLoss" where
  "STFTLoss_init fs ss wl w =
     \<lparr>fft_size = fs, shift_size = ss, win_length = wl, window = w,
      log_stft_magnitude_loss = LogSTFTMagnitudeLoss_init\<rparr>"

definition STFTLoss_forward ::
  "libraries \<Rightarrow> STFTLoss \<Rightarrow> signal \<Rightarrow> signal \<Rightarrow> error + real \<times> real" where
  "STFTLoss_forward lib self x y =
     (case stft lib x (fft_size self) (shift_size self) (win_length self) (window self) of
        Inl e \<Rightarrow> Inl e
      | Inr x_mag \<Rightarrow>
          (case stft lib y (fft_size self) (shift_size self) (win_length self) (window self) of
             Inl e \<Rightarrow> Inl e
           | Inr y_mag \<Rightarrow>
               Inr (SpectralConvergenceLoss_forward x_mag y_mag,
                    LogSTFTMagnitudeLoss_forward (log_stft_magnitude_loss self) x_mag y_mag)))"

record MultiResolutionSTFTLoss =
  stft_losses :: "STFTLoss list"

definition MultiResolutionSTFTLoss_init ::
  "nat list \<Rightarrow> nat list \<Rightarrow> nat list \<Rightarrow> string \<Rightarrow> error + MultiResolutionSTFTLoss" where
  "MultiResolutionSTFTLoss_init fft_sizes hop_sizes win_lengths w =
     (if length fft_sizes = length hop_sizes \<and> length hop_sizes = length win_lengths
      then Inr \<lparr>stft_losses =
                  map (\<lambda>(fs, ss, wl). STFTLoss_init fs ss wl w)
                    (zip fft_sizes (zip hop_sizes win_lengths))\<rparr>
      else Inl AssertionError)"

text \<open>The loop \<open>for f in self.stft_losses\<close> with its two accumulators.\<close>

fun stft_losses_loop ::
  "libraries \<Rightarrow> STFTLoss list \<Rightarrow> signal \<Rightarrow> signal \<Rightarrow> real \<times> real \<Rightarrow> error + real \<times> real" where
  "stft_losses_loop lib [] x y acc = Inr acc"
| "stft_losses_loop lib (f # fs) x y (sc_loss, mag_loss) =
     (case STFTLoss_forward lib f x y of
        Inl e \<Rightarrow> Inl e
      | Inr (sc_l, mag_l) \<Rightarrow> stft_losses_loop lib fs x y (sc_loss + sc_l, mag_loss + mag_l))"

text \<open>
  \<open>forward\<close> tests the rank of \<open>x\<close> only and then reshapes both \<open>x\<close> and \<open>y\<close>;
  \<open>y.shape[2]\<close> raises \<open>IndexError\<close> on a tensor of rank 2. Dividing the float
  \<open>0.0\<close> by \<open>len(self.stft_losses) = 0\<close> raises \<open>ZeroDivisionError\<close>.
\<close>

definition MultiResolutionSTFTLoss_forward ::
  "libraries \<Rightarrow> MultiResolutionSTFTLoss \<Rightarrow> signal \<Rightarrow> signal \<Rightarrow> error + real \<times> real" where
  "MultiResolutionSTFTLoss_forward lib self x y =
     (case (case x of
              Signal3 xs \<Rightarrow>
                (case y of
                   Signal3 ys \<Rightarrow> Inr (Signal2 (concat xs), Signal2 (concat ys))
                 | Signal2 ys \<Rightarrow> Inl IndexError)
            | Signal2 xs \<Rightarrow> Inr (x, y)) of
        Inl e \<Rightarrow> Inl e
      | Inr (x2, y2) \<Rightarrow>
          (case stft_losses_loop lib (stft_losses self) x2 y2 (0, 0) of
             Inl e \<Rightarrow> Inl e
           | Inr (sc_loss, mag_loss) \<Rightarrow>
               (if length (stft_losses self) = 0 then Inl ZeroDivisionError
                else Inr (sc_loss / real (length (stft_losses self)),
                          mag_loss / real (length (stft_losses self))))))"

subsection \<open>Class \<open>GeneratorAdversarialLoss\<close>\<close>

text \<open>
  \<open>forward\<close> takes one discriminator output (a tensor) or a list of them; an element
  of the list is a tensor or itself a list of tensors (feature maps, the final output
  last). One-element loss tensors are written as their value.
\<close>

datatype disc_output = Out tensor | OutList "tensor list"

datatype disc_outputs = Outputs tensor | OutputsList "disc_output list"

record GeneratorAdversarialLoss =
  average_by_discriminators :: bool
  criterion :: "tensor \<Rightarrow> real"

text \<open>\<open>_mse_loss\<close> is \<open>F.mse_loss(x, ones_like(x))\<close>, \<open>_hinge_loss\<close> is \<open>-x.mean()\<close>.\<close>

definition mse_loss_ones :: "tensor \<Rightarrow> real" where
  "mse_loss_ones x = mean (map (\<lambda>v. (v - 1)\<^sup>2) (flatten x))"

definition hinge_loss :: "tensor \<Rightarrow> real" where
  "hinge_loss x = - mean (flatten x)"

definition GeneratorAdversarialLoss_init :: "bool \<Rightarrow> string \<Rightarrow> error + GeneratorAdversarialLoss" where
  "GeneratorAdversarialLoss_init avg loss_type =
     (if loss_type \<in> set [''mse'', ''hinge'']
      then Inr \<lparr>average_by_discriminators = avg,
                criterion = (if loss_type = ''mse'' then mse_loss_ones else hinge_loss)\<rparr>
      else Inl AssertionError)"

text \<open>
  The loop \<open>for i, outputs_ in enumerate(outputs)\<close>: the state is \<open>adv_loss\<close> and the
  loop variable \<open>i\<close>, which is unbound (\<open>None\<close>) until the first iteration; \<open>k\<close> is the
  next index. \<open>outputs_[-1]\<close> raises \<open>IndexError\<close> on an empty list.
\<close>

fun adv_loop ::
  "(tensor \<Rightarrow> real) \<Rightarrow> disc_output list \<Rightarrow> nat \<Rightarrow> real \<times> nat option
     \<Rightarrow> error + real \<times> nat option" where
  "adv_loop crit [] k st = Inr st"
| "adv_loop crit (outputs_i # rest) k (adv_loss, i) =
     (case (case outputs_i of
              OutList ts \<Rightarrow> (if ts = [] then Inl IndexError else Inr (last ts))
            | Out t \<Rightarrow> Inr t) of
        Inl e \<Rightarrow> Inl e
      | Inr t \<Rightarrow> adv_loop crit rest (k + 1) (adv_loss + crit t, Some k))"

definition GeneratorAdversarialLoss_forward ::
  "GeneratorAdversarialLoss \<Rightarrow> disc_outputs \<Rightarrow> error + real" where
  "GeneratorAdversarialLoss_forward self outputs =
     (case outputs of
        OutputsList outs \<Rightarrow>
          (case adv_loop (criterion self) outs 0 (0, None) of
             Inl e \<Rightarrow> Inl e
           | Inr (adv_loss, i) \<Rightarrow>
               (if average_by_discriminators self
                then (case i of
                        None \<Rightarrow> Inl UnboundLocalError
                      | Some i \<Rightarrow> Inr (adv_loss / real (i + 1)))
                else Inr adv_loss))
      | Outputs t \<Rightarrow> Inr (criterion self t))"

subsection \<open>Structural similarity (SSIM)\<close>

text \<open>
  Images are tensors of shape (B, C, H, W). \<open>gaussian\<close> is the normalised window
  \<open>exp (- (x - window_size // 2)\<^sup>2 / (2 sigma\<^sup>2))\<close>.
\<close>

definition gaussian :: "nat \<Rightarrow> real \<Rightarrow> real list" where
  "gaussian window_size sg =
     (let gauss = map (\<lambda>x. exp (- real_of_int ((int x - int (window_size div 2))\<^sup>2)
                                 / (2 * sg\<^sup>2))) [0..<window_size]
      in map (\<lambda>v. v / sum_list gauss) gauss)"

text \<open>
  \<open>create_window\<close>: the outer product of the window of standard deviation 1.5 with
  itself, expanded to shape (channel, 1, window_size, window_size).
\<close>

definition create_window :: "nat \<Rightarrow> nat \<Rightarrow> real list list list list" where
  "create_window window_size channel =
     (let w1 = gaussian window_size (3 / 2);
          w2 = map (\<lambda>a. map (\<lambda>b. a * b) w1) w1
      in replicate channel [w2])"

text \<open>
  \<open>F.conv2d(img, weight, padding=p, groups=channel)\<close> with a weight of shape
  (channel, 1, kh, kw): channel c of the image is correlated with kernel c, over the
  image padded by p zeros on each side. \<open>padded_at x p r s\<close> reads the padded plane.
\<close>

definition padded_at :: "real list list \<Rightarrow> nat \<Rightarrow> nat \<Rightarrow> nat \<Rightarrow> real" where
  "padded_at x p r s =
     (if p \<le> r \<and> r - p < length x
      then (let row = x ! (r - p) in if p \<le> s \<and> s - p < length row then row ! (s - p) else 0)
      else 0)"

definition conv2d_plane :: "real list list \<Rightarrow> real list list \<Rightarrow> nat \<Rightarrow> real list list" where
  "conv2d_plane x k p =
     (let H = length x;
          W = (case x of [] \<Rightarrow> 0 | row # _ \<Rightarrow> length row);
          kh = length k;
          kw = (case k of [] \<Rightarrow> 0 | row # _ \<Rightarrow> length row)
      in map (\<lambda>i. map (\<lambda>j. sum_list (map (\<lambda>a. sum_list (map (\<lambda>b.
                        k ! a ! b * padded_at x p (i + a) (j + b)) [0..<kw])) [0..<kh]))
                    [0..<W + 2 * p + 1 - kw])
           [0..<H + 2 * p + 1 - kh])"

definition conv2d ::
  "real list list list list \<Rightarrow> real list list list list \<Rightarrow> nat \<Rightarrow> real list list list list" where
  "conv2d img weight p =
     map (\<lambda>planes. map2 (\<lambda>x kc. case kc of [] \<Rightarrow> [] | k # _ \<Rightarrow> conv2d_plane x k p)
                      planes weight) img"

text \<open>An element-wise binary operator on two tensors of rank 4 of one shape.\<close>

definition pointwise4 ::
  "(real \<Rightarrow> real \<Rightarrow> real) \<Rightarrow> real list list list list \<Rightarrow> real list list list list
     \<Rightarrow> real list list list list" where
  "pointwise4 f a b = map2 (map2 (map2 (map2 f))) a b"

text \<open>The tensor \<open>ssim_map\<close> that \<open>_ssim\<close> computes before it averages.\<close>

definition ssim_map ::
  "real list list list list \<Rightarrow> real list list list list \<Rightarrow> real list list list list \<Rightarrow> nat
     \<Rightarrow> real list list list list" where
  "ssim_map img1 img2 window_t window_size =
     (let mu1 = conv2d img1 window_t (window_size div 2);
          mu2 = conv2d img2 window_t (window_size div 2);
          mu1_sq = pointwise4 (*) mu1 mu1;
          mu2_sq = pointwise4 (*) mu2 mu2;
          mu1_mu2 = pointwise4 (*) mu1 mu2;
          sigma1_sq = pointwise4 (-)
                        (conv2d (pointwise4 (*) img1 img1) window_t (window_size div 2)) mu1_sq;
          sigma2_sq = pointwise4 (-)
                        (conv2d (pointwise4 (*) img2 img2) window_t (window_size div 2)) mu2_sq;
          sigma12 = pointwise4 (-)
                        (conv2d (pointwise4 (*) img1 img2) window_t (window_size div 2)) mu1_mu2;
          C1 = (1 / 100)\<^sup>2;
          C2 = (3 / 100)\<^sup>2
      in pointwise4 (/)
           (pointwise4 (*) (map (map (map (map (\<lambda>v. 2 * v + C1)))) mu1_mu2)
                           (map (map (map (map (\<lambda>v. 2 * v + C2)))) sigma12))
           (pointwise4 (*) (map (map (map (map (\<lambda>v. v + C1)))) (pointwise4 (+) mu1_sq mu2_sq))
                           (map (map (map (map (\<lambda>v. v + C2))))
                              (pointwise4 (+) sigma1_sq sigma2_sq))))"

text \<open>
  \<open>t.mean(1)\<close> on a tensor of rank 4, 3 and 2: the mean along axis 1, which drops
  that axis.
\<close>

definition mean_axis1_rank4 :: "real list list list list \<Rightarrow> real list list list" where
  "mean_axis1_rank4 t =
     map (\<lambda>planes.
            case planes of
              [] \<Rightarrow> []
            | p0 # _ \<Rightarrow>
                map (\<lambda>h. map (\<lambda>w. sum_list (map (\<lambda>pl. pl ! h ! w) planes)
                                      / real (length planes))
                            [0..<length (p0 ! h)])
                    [0..<length p0]) t"

definition mean_axis1_rank3 :: "real list list list \<Rightarrow> real list list" where
  "mean_axis1_rank3 t =
     map (\<lambda>rows.
            case rows of
              [] \<Rightarrow> []
            | r0 # _ \<Rightarrow>
                map (\<lambda>w. sum_list (map (\<lambda>row. row ! w) rows) / real (length rows))
                    [0..<length r0]) t"

definition mean_axis1_rank2 :: "real list list \<Rightarrow> real list" where
  "mean_axis1_rank2 t = map mean t"

text \<open>
  \<open>_ssim\<close> (named \<open>ssim_inner\<close> here) and \<open>ssim\<close>. A full mean is a tensor of shape
  [1], written as a list of one number; without \<open>size_average\<close> the result has shape
  (B,).
\<close>

definition ssim_inner ::
  "real list list list list \<Rightarrow> real list list list list \<Rightarrow> real list list list list \<Rightarrow> nat
     \<Rightarrow> nat \<Rightarrow> bool \<Rightarrow> real list" where
  "ssim_inner img1 img2 window_t window_size channel size_average =
     (if size_average
      then [mean (concat (concat (concat (ssim_map img1 img2 window_t window_size))))]
      else mean_axis1_rank2 (mean_axis1_rank3 (mean_axis1_rank4
             (ssim_map img1 img2 window_t window_size))))"

definition ssim ::
  "real list list list list \<Rightarrow> real list list list list \<Rightarrow> nat \<Rightarrow> bool \<Rightarrow> real list" where
  "ssim img1 img2 window_size size_average =
     (let channel = (case img1 of [] \<Rightarrow> 0 | planes # _ \<Rightarrow> length planes);
          window_t = create_window window_size channel
      in ssim_inner img1 img2 window_t window_size channel size_average)"

text \<open>Shape predicates for nested lists: (H, W) and (B, C, H, W).\<close>

definition has_shape2 :: "'a list list \<Rightarrow> nat \<Rightarrow> nat \<Rightarrow> bool" where
  "has_shape2 x H W \<longleftrightarrow> length x = H \<and> (\<forall>i<H. length (x ! i) = W)"

definition has_shape4 :: "'a list list list list \<Rightarrow> nat \<Rightarrow> nat \<Rightarrow> nat \<Rightarrow> nat \<Rightarrow> bool" where
  "has_shape4 t B C H W \<longleftrightarrow>
     length t = B \<and> (\<forall>b<B. length (t ! b) = C \<and> (\<forall>c<C. has_shape2 (t ! b ! c) H W))"

subsection \<open>\<open>weighted_mean\<close> and \<open>masked_l1_loss\<close>\<close>

definition weighted_mean :: "tensor \<Rightarrow> tensor \<Rightarrow> error + tensor" where
  "weighted_mean input weight =
     (let broadcast_ratio = real (numel input) / real (numel weight) in
      case tensor_multiply input weight of
        Inl e \<Rightarrow> Inl e
      | Inr weighted \<Rightarrow> Inr (Tensor [Scalar (sum_all weighted / (sum_all weight * broadcast_ratio))]))"

definition masked_l1_loss :: "tensor \<Rightarrow> tensor \<Rightarrow> tensor \<Rightarrow> error + tensor" where
  "masked_l1_loss prediction target mask_t =
     (case l1_loss_none prediction target of
        Inl e \<Rightarrow> Inl e
      | Inr abs_error \<Rightarrow> weighted_mean abs_error mask_t)"

subsection \<open>Class \<open>MelSpectrogram\<close>\<close>

text \<open>The function stored in \<open>self.log\<close>.\<close>

datatype log_function = paddle_log | paddle_log2 | paddle_log10

fun apply_log :: "log_function \<Rightarrow> real \<Rightarrow> real" where
  "apply_log paddle_log v = ln v"
| "apply_log paddle_log2 v = log 2 v"
| "apply_log paddle_log10 v = log 10 v"

record MelSpectrogram =
  fft_size :: nat
  win_length :: nat
  hop_size :: nat
  center :: bool
  normalized :: bool
  onesided :: bool
  window :: "string option"
  eps :: real
  melmat :: "real list list"
  log_base :: "real option"
  log_op :: log_function

text \<open>
  \<open>__init__\<close>: the window name is checked first; then \<open>librosa.filters.mel\<close> builds
  the mel filter bank, and an exception it raises leaves the constructor; the
  \<open>if\<close>/\<open>elif\<close> chain on \<open>log_base\<close> comes last.
\<close>

definition MelSpectrogram_init ::
  "libraries \<Rightarrow> real \<Rightarrow> nat \<Rightarrow> nat \<Rightarrow> nat option \<Rightarrow> string option \<Rightarrow> nat
     \<Rightarrow> real option \<Rightarrow> real option \<Rightarrow> bool \<Rightarrow> bool \<Rightarrow> bool \<Rightarrow> real \<Rightarrow> real option
     \<Rightarrow> error + MelSpectrogram" where
  "MelSpectrogram_init lib fs fft_sz hop_sz win_len wdw num_mels fmin fmax cntr nrm ones ep lb =
     (if (case wdw of None \<Rightarrow> False | Some name \<Rightarrow> \<not> windows_hasattr lib name)
      then Inl ValueError
      else
        (let fmin1 = (case fmin of None \<Rightarrow> 0 | Some v \<Rightarrow> v);
             fmax1 = (case fmax of None \<Rightarrow> fs / 2 | Some v \<Rightarrow> v)
         in case librosa_mel lib fs fft_sz num_mels fmin1 fmax1 of
              Inl e \<Rightarrow> Inl e
            | Inr mel \<Rightarrow>
                (case (if lb = None then Inr paddle_log
                       else if lb = Some 2 then Inr paddle_log2
                       else if lb = Some 10 then Inr paddle_log10
                       else Inl ValueError) of
                   Inl e \<Rightarrow> Inl e
                 | Inr lg \<Rightarrow>
                     Inr \<lparr>fft_size = fft_sz,
                          win_length = (case win_len of None \<Rightarrow> fft_sz | Some l \<Rightarrow> l),
                          hop_size = hop_sz, center = cntr, normalized = nrm, onesided = ones,
                          window = wdw, eps = ep, melmat = transpose mel, log_base = lb,
                          log_op = lg\<rparr>)))"

text \<open>\<open>paddle.matmul(a, m)\<close> of a batch (B, frames, freq) with a matrix (freq, mels).\<close>

definition matmul :: "real list list list \<Rightarrow> real list list \<Rightarrow> real list list list" where
  "matmul a m = map (map (\<lambda>row. map (\<lambda>col. sum_list (map2 (*) row col)) (transpose m))) a"

text \<open>
  \<open>forward\<close> up to the clipped mel spectrogram \<open>x_mel\<close> (B, frames, mels), and
  \<open>forward\<close> itself, which applies \<open>self.log\<close> and transposes.
\<close>

definition MelSpectrogram_x_mel ::
  "libraries \<Rightarrow> MelSpectrogram \<Rightarrow> signal \<Rightarrow> error + real list list list" where
  "MelSpectrogram_x_mel lib self x =
     (let x2 = (case x of Signal3 xs \<Rightarrow> Signal2 (concat xs) | Signal2 xs \<Rightarrow> x) in
      case (case window self of
              Some name \<Rightarrow> (case get_window lib name (win_length self) of
                               Inl e \<Rightarrow> Inl e
                             | Inr w \<Rightarrow> Inr (Some w))
            | None \<Rightarrow> Inr None) of
        Inl e \<Rightarrow> Inl e
      | Inr w \<Rightarrow>
          (case signal_stft lib x2 (fft_size self) (hop_size self) (win_length self) w
                  (center self) ''reflect'' (normalized self) (onesided self) of
             Inl e \<Rightarrow> Inl e
           | Inr x_stft \<Rightarrow>
               (let real = map transpose (map (map (map Re)) x_stft);
                    imag = map transpose (map (map (map Im)) x_stft);
                    x_power = map2 (map2 (map2 (\<lambda>r i. r\<^sup>2 + i\<^sup>2))) real imag;
                    x_amp = map (map (map sqrt)) (clip_min x_power (eps self));
                    x_mel = matmul x_amp (melmat self)
                in Inr (clip_min x_mel (eps self)))))"

definition MelSpectrogram_forward ::
  "libraries \<Rightarrow> MelSpectrogram \<Rightarrow> signal \<Rightarrow> error + real list list list" where
  "MelSpectrogram_forward lib self x =
     (case MelSpectrogram_x_mel lib self x of
        Inl e \<Rightarrow> Inl e
      | Inr x_mel \<Rightarrow> Inr (map transpose (map (map (map (apply_log (log_op self)))) x_mel)))"

section \<open>Verified properties\<close>

subsection \<open>The attention guide matrix\<close>

lemma attention_guide_length:
  "length (attention_guide dec_lens enc_lens N T g) = min (length dec_lens) (length enc_lens)"
  by (simp add: attention_guide_def sequence_mask_def Let_def)

lemma attention_guide_row_length:
  assumes "i < length dec_lens" "i < length enc_lens"
  shows "length (attention_guide dec_lens enc_lens N T g ! i) = N"
  using assms by (simp add: attention_guide_def sequence_mask_def arange_def Let_def)

lemma attention_guide_col_length:
  assumes "i < length dec_lens" "i < length enc_lens" "n < N"
  shows "length (attention_guide dec_lens enc_lens N T g ! i ! n) = T"
  using assms by (simp add: attention_guide_def sequence_mask_def arange_def Let_def)

lemma attention_guide_entry:
  assumes "i < length dec_lens" "i < length enc_lens" "n < N" "t < T"
  shows "attention_guide dec_lens enc_lens N T g ! i ! n ! t =
     (if int n < dec_lens ! i \<and> int t < enc_lens ! i
      then 1 - exp (- ((real n / real_of_int (dec_lens ! i)
                        - real t / real_of_int (enc_lens ! i))\<^sup>2) / (2 * g\<^sup>2))
      else 0)"
  using assms by (simp add: attention_guide_def sequence_mask_def arange_def Let_def)

text \<open>
  Claim C1. For batches \<open>dec_lens\<close> and \<open>enc_lens\<close> of B positive lengths and
  \<open>g > 0\<close>, \<open>attention_guide\<close> returns a tensor of shape (B, N, T) whose entry
  (i, n, t) is \<open>1 - exp (- (n / dec_lens[i] - t / enc_lens[i])\<^sup>2 / (2 g\<^sup>2))\<close> inside the
  non-padded region \<open>n < dec_lens[i]\<close>, \<open>t < enc_lens[i]\<close>, and 0 outside of it.
\<close>

theorem attention_guide_spec:
  assumes "length dec_lens = B" and "length enc_lens = B"
    and "\<forall>d \<in> set dec_lens. 0 < d" and "\<forall>e \<in> set enc_lens. 0 < e" and "0 < g"
  shows "length (attention_guide dec_lens enc_lens N T g) = B \<and>
    (\<forall>i<B. length (attention_guide dec_lens enc_lens N T g ! i) = N \<and>
      (\<forall>n<N. length (attention_guide dec_lens enc_lens N T g ! i ! n) = T \<and>
        (\<forall>t<T. attention_guide dec_lens enc_lens N T g ! i ! n ! t =
           (if int n < dec_lens ! i \<and> int t < enc_lens ! i
            then 1 - exp (- ((real n / real_of_int (dec_lens ! i)
                              - real t / real_of_int (enc_lens ! i))\<^sup>2) / (2 * g\<^sup>2))
            else 0))))"
  using assms
  by (simp add: attention_guide_length attention_guide_row_length
      attention_guide_col_length attention_guide_entry)

theorem attention_guide_spec_witness:
  "length (attention_guide [2, 1] [1, 2] 2 2 1) = 2 \<and>
   attention_guide [2, 1] [1, 2] 2 2 1 ! 0 ! 1 ! 0 = 1 - exp (- (1 / 8)) \<and>
   attention_guide [2, 1] [1, 2] 2 2 1 ! 0 ! 1 ! 1 = 0 \<and>
   attention_guide [2, 1] [1, 2] 2 2 1 ! 1 ! 0 ! 1 = 1 - exp (- (1 / 8)) \<and>
   attention_guide [2, 1] [1, 2] 2 2 1 ! 1 ! 1 ! 0 = 0"
  using attention_guide_spec [of "[2, 1]" 2 "[1, 2]" 1 2 2]
  by (simp add: power2_eq_square)

subsection \<open>State kept by the guided attention modules\<close>

lemma upt_0_2: "[0..<2] = [0, 1]"
  by (simp add: numeral_2_eq_2)

lemmas gal_defs = upt_0_2 GuidedAttentionLoss_forward_def GuidedAttentionLoss_init_def
  make_guided_attention_masks_def make_guided_attention_mask_def assign_block_def
  make_masks_def make_non_pad_mask_def masked_select_def mean_def Let_def reset_masks_def
  broadcast_op_def broadcast_to_like_def insert_axis_def broadcast_axis_def

text \<open>
  Whatever the fields hold before, a call that returns under \<open>reset_always\<close> leaves
  both of them \<open>None\<close>.
\<close>

lemma forward_resets:
  assumes "reset_always self"
    and "GuidedAttentionLoss_forward self att_ws ilens olens = (Inr v, self')"
  shows "guided_attn_masks self' = None \<and> masks self' = None"
  using assms
  by (auto simp: GuidedAttentionLoss_forward_def reset_masks_def Let_def
      split: sum.splits option.splits)

lemma forward_mh_resets:
  assumes "reset_always self"
    and "GuidedMultiHeadAttentionLoss_forward self att_ws ilens olens = (Inr v, self')"
  shows "guided_attn_masks self' = None \<and> masks self' = None"
  using assms
  by (auto simp: GuidedMultiHeadAttentionLoss_forward_def reset_masks_def Let_def
      split: sum.splits option.splits)

text \<open>
  On a module whose fields are \<open>None\<close>, a call that returns under \<open>reset_always\<close>
  leaves the module as it was.
\<close>

lemma forward_returns_fresh:
  assumes "reset_always self" "guided_attn_masks self = None" "masks self = None"
    and "fst (GuidedAttentionLoss_forward self att_ws ilens olens) = Inr v"
  shows "snd (GuidedAttentionLoss_forward self att_ws ilens olens) = self"
  using assms
  by (auto simp: GuidedAttentionLoss_forward_def reset_masks_def Let_def
      split: sum.splits option.splits)

lemma forward_mh_returns_fresh:
  assumes "reset_always self" "guided_attn_masks self = None" "masks self = None"
    and "fst (GuidedMultiHeadAttentionLoss_forward self att_ws ilens olens) = Inr v"
  shows "snd (GuidedMultiHeadAttentionLoss_forward self att_ws ilens olens) = self"
  using assms
  by (auto simp: GuidedMultiHeadAttentionLoss_forward_def reset_masks_def Let_def
      split: sum.splits option.splits)

lemma calls_fresh:
  assumes "reset_always self" "guided_attn_masks self = None" "masks self = None"
    and "\<forall>(a, i, ol) \<in> set cs. \<exists>r. fst (GuidedAttentionLoss_forward self a i ol) = Inr r"
  shows "GuidedAttentionLoss_calls self cs =
     (map (\<lambda>(a, i, ol). fst (GuidedAttentionLoss_forward self a i ol)) cs, self)"
  using assms(4)
proof (induction cs)
  case Nil
  show ?case by simp
next
  case (Cons c cs)
  obtain a i ol where c: "c = (a, i, ol)" by (cases c) auto
  obtain r where "fst (GuidedAttentionLoss_forward self a i ol) = Inr r"
    using Cons.prems c by auto
  then have "snd (GuidedAttentionLoss_forward self a i ol) = self"
    by (rule forward_returns_fresh [OF assms(1-3)])
  then obtain q where q: "GuidedAttentionLoss_forward self a i ol = (q, self)"
    by (metis prod.collapse)
  have "GuidedAttentionLoss_calls self cs =
     (map (\<lambda>(a, i, ol). fst (GuidedAttentionLoss_forward self a i ol)) cs, self)"
    using Cons.IH Cons.prems by simp
  then show ?case by (simp add: c q)
qed

lemma calls_mh_fresh:
  assumes "reset_always self" "guided_attn_masks self = None" "masks self = None"
    and "\<forall>(a, i, ol) \<in> set cs.
           \<exists>r. fst (GuidedMultiHeadAttentionLoss_forward self a i ol) = Inr r"
  shows "GuidedMultiHeadAttentionLoss_calls self cs =
     (map (\<lambda>(a, i, ol). fst (GuidedMultiHeadAttentionLoss_forward self a i ol)) cs, self)"
  using assms(4)
proof (induction cs)
  case Nil
  show ?case by simp
next
  case (Cons c cs)
  obtain a i ol where c: "c = (a, i, ol)" by (cases c) auto
  obtain r where "fst (GuidedMultiHeadAttentionLoss_forward self a i ol) = Inr r"
    using Cons.prems c by auto
  then have "snd (GuidedMultiHeadAttentionLoss_forward self a i ol) = self"
    by (rule forward_mh_returns_fresh [OF assms(1-3)])
  then obtain q where q: "GuidedMultiHeadAttentionLoss_forward self a i ol = (q, self)"
    by (metis prod.collapse)
  have "GuidedMultiHeadAttentionLoss_calls self cs =
     (map (\<lambda>(a, i, ol). fst (GuidedMultiHeadAttentionLoss_forward self a i ol)) cs, self)"
    using Cons.IH Cons.prems by simp
  then show ?case by (simp add: c q)
qed

text \<open>
  A call that raises after the masks were assigned keeps them, also under
  \<open>reset_always\<close>: here \<open>att_ws\<close> of shape (2, 3, 3) meets masks of shape (2, 2, 2).
\<close>

lemma forward_raise_keeps_masks:
  "fst (GuidedAttentionLoss_forward (GuidedAttentionLoss_init (2/5) 1 True)
         \<lparr>dims = [2, 3, 3],
          entries = [[[0, 0, 0], [0, 0, 0], [0, 0, 0]], [[0, 0, 0], [0, 0, 0], [0, 0, 0]]]\<rparr>
         [2, 2] [2, 2]) = Inl FrameworkError \<and>
   guided_attn_masks (snd (GuidedAttentionLoss_forward (GuidedAttentionLoss_init (2/5) 1 True)
         \<lparr>dims = [2, 3, 3],
          entries = [[[0, 0, 0], [0, 0, 0], [0, 0, 0]], [[0, 0, 0], [0, 0, 0], [0, 0, 0]]]\<rparr>
         [2, 2] [2, 2])) \<noteq> None"
  by (simp add: gal_defs power2_eq_square)

text \<open>
  Claim C2 fails as stated, for \<open>reset_always = False\<close>: after a call to \<open>forward\<close> the
  two mask fields are not \<open>None\<close>, and a later call with other lengths is answered from
  the masks of the earlier call, so it returns another value than the same call on a
  fresh module.
\<close>

theorem GuidedAttentionLoss_keeps_masks_counterexample:
  "guided_attn_masks (snd (GuidedAttentionLoss_forward (GuidedAttentionLoss_init (2/5) 1 False)
       \<lparr>dims = [2, 2, 2], entries = [[[0, 0], [0, 0]], [[0, 0], [0, 0]]]\<rparr> [2, 2] [2, 2]))
     \<noteq> None \<and>
   masks (snd (GuidedAttentionLoss_forward (GuidedAttentionLoss_init (2/5) 1 False)
       \<lparr>dims = [2, 2, 2], entries = [[[0, 0], [0, 0]], [[0, 0], [0, 0]]]\<rparr> [2, 2] [2, 2]))
     \<noteq> None \<and>
   fst (GuidedAttentionLoss_forward
          (snd (GuidedAttentionLoss_forward (GuidedAttentionLoss_init (2/5) 1 False)
                  \<lparr>dims = [2, 2, 2], entries = [[[0, 0], [0, 0]], [[0, 0], [0, 0]]]\<rparr>
                  [2, 2] [2, 2]))
          \<lparr>dims = [2, 2, 2], entries = [[[0, 0], [0, 0]], [[0, 1], [0, 0]]]\<rparr> [2, 1] [2, 1])
     \<noteq> fst (GuidedAttentionLoss_forward (GuidedAttentionLoss_init (2/5) 1 False)
          \<lparr>dims = [2, 2, 2], entries = [[[0, 0], [0, 0]], [[0, 1], [0, 0]]]\<rparr> [2, 1] [2, 1])"
  by (simp add: gal_defs power2_eq_square)

text \<open>
  Claim C2, amended. Under \<open>reset_always = True\<close>, after every call to \<open>forward\<close> (of
  \<open>GuidedAttentionLoss\<close> and of \<open>GuidedMultiHeadAttentionLoss\<close>) that returns, the fields
  \<open>guided_attn_masks\<close> and \<open>masks\<close> are \<open>None\<close> again; and in a sequence of calls on a
  module built with \<open>reset_always = True\<close>, each of which returns when it is made on a
  freshly built module, the module stays as the constructor left it and every call
  returns what it returns on a freshly built module, so its result depends only on
  its own arguments.
\<close>

theorem GuidedAttentionLoss_reset_always_stateless:
  "(reset_always self \<and>
      GuidedAttentionLoss_forward self att_ws ilens olens = (Inr v, self') \<longrightarrow>
      guided_attn_masks self' = None \<and> masks self' = None) \<and>
   (reset_always mh \<and>
      GuidedMultiHeadAttentionLoss_forward mh att_ws4 ilens4 olens4 = (Inr w, mh') \<longrightarrow>
      guided_attn_masks mh' = None \<and> masks mh' = None) \<and>
   ((\<forall>(a, i, ol) \<in> set cs.
        \<exists>r. fst (GuidedAttentionLoss_forward (GuidedAttentionLoss_init sg al True) a i ol)
               = Inr r) \<longrightarrow>
      GuidedAttentionLoss_calls (GuidedAttentionLoss_init sg al True) cs =
        (map (\<lambda>(a, i, ol).
                fst (GuidedAttentionLoss_forward (GuidedAttentionLoss_init sg al True) a i ol))
           cs,
         GuidedAttentionLoss_init sg al True)) \<and>
   ((\<forall>(a, i, ol) \<in> set ms.
        \<exists>r. fst (GuidedMultiHeadAttentionLoss_forward (GuidedAttentionLoss_init sg al True)
                    a i ol) = Inr r) \<longrightarrow>
      GuidedMultiHeadAttentionLoss_calls (GuidedAttentionLoss_init sg al True) ms =
        (map (\<lambda>(a, i, ol).
                fst (GuidedMultiHeadAttentionLoss_forward (GuidedAttentionLoss_init sg al True)
                       a i ol)) ms,
         GuidedAttentionLoss_init sg al True))"
proof -
  have fresh3: "reset_always (GuidedAttentionLoss_init sg al True :: GuidedAttentionLoss3)"
    "guided_attn_masks (GuidedAttentionLoss_init sg al True :: GuidedAttentionLoss3) = None"
    "masks (GuidedAttentionLoss_init sg al True :: GuidedAttentionLoss3) = None"
    by (simp_all add: GuidedAttentionLoss_init_def)
  have fresh4: "reset_always (GuidedAttentionLoss_init sg al True :: GuidedAttentionLoss4)"
    "guided_attn_masks (GuidedAttentionLoss_init sg al True :: GuidedAttentionLoss4) = None"
    "masks (GuidedAttentionLoss_init sg al True :: GuidedAttentionLoss4) = None"
    by (simp_all add: GuidedAttentionLoss_init_def)
  show ?thesis
    using forward_resets [of self att_ws ilens olens v self']
      forward_mh_resets [of mh att_ws4 ilens4 olens4 w mh']
      calls_fresh [OF fresh3, of cs] calls_mh_fresh [OF fresh4, of ms]
    by blast
qed

theorem GuidedAttentionLoss_reset_always_stateless_witness:
  "GuidedAttentionLoss_forward (GuidedAttentionLoss_init (2/5) 1 True)
      \<lparr>dims = [2, 2, 2], entries = [[[0, 0], [0, 0]], [[0, 1], [0, 0]]]\<rparr> [2, 1] [2, 1]
     = (Inr 0, GuidedAttentionLoss_init (2/5) 1 True) \<and>
   guided_attn_masks (GuidedAttentionLoss_init (2/5) 1 True :: GuidedAttentionLoss3) = None \<and>
   masks (GuidedAttentionLoss_init (2/5) 1 True :: GuidedAttentionLoss3) = None \<and>
   GuidedAttentionLoss_calls (GuidedAttentionLoss_init (2/5) 1 True)
      [(\<lparr>dims = [2, 2, 2], entries = [[[0, 0], [0, 0]], [[0, 0], [0, 0]]]\<rparr>, [2, 2], [2, 2]),
       (\<lparr>dims = [2, 2, 2], entries = [[[0, 0], [0, 0]], [[0, 1], [0, 0]]]\<rparr>, [2, 1], [2, 1])]
     = ([Inr 0, Inr 0], GuidedAttentionLoss_init (2/5) 1 True) \<and>
   GuidedMultiHeadAttentionLoss_forward (GuidedAttentionLoss_init (2/5) 1 True)
      \<lparr>dims = [1, 2, 1, 1], entries = [[[[3]], [[4]]]]\<rparr> [1] [1]
     = (Inr 0, GuidedAttentionLoss_init (2/5) 1 True) \<and>
   GuidedMultiHeadAttentionLoss_calls (GuidedAttentionLoss_init (2/5) 1 True)
      [(\<lparr>dims = [1, 2, 1, 1], entries = [[[[3]], [[4]]]]\<rparr>, [1], [1])]
     = ([Inr 0], GuidedAttentionLoss_init (2/5) 1 True)"
proof -
  have a: "GuidedAttentionLoss_forward (GuidedAttentionLoss_init (2/5) 1 True)
      \<lparr>dims = [2, 2, 2], entries = [[[0, 0], [0, 0]], [[0, 1], [0, 0]]]\<rparr> [2, 1] [2, 1]
     = (Inr 0, GuidedAttentionLoss_init (2/5) 1 True)"
    by (simp add: gal_defs power2_eq_square)
  have b: "GuidedAttentionLoss_forward (GuidedAttentionLoss_init (2/5) 1 True)
      \<lparr>dims = [2, 2, 2], entries = [[[0, 0], [0, 0]], [[0, 0], [0, 0]]]\<rparr> [2, 2] [2, 2]
     = (Inr 0, GuidedAttentionLoss_init (2/5) 1 True)"
    by (simp add: gal_defs power2_eq_square)
  have c: "GuidedMultiHeadAttentionLoss_forward (GuidedAttentionLoss_init (2/5) 1 True)
      \<lparr>dims = [1, 2, 1, 1], entries = [[[[3]], [[4]]]]\<rparr> [1] [1]
     = (Inr 0, GuidedAttentionLoss_init (2/5) 1 True)"
    by (simp add: gal_defs GuidedMultiHeadAttentionLoss_forward_def unsqueeze1_def
        power2_eq_square)
  show ?thesis
    using a b c
      GuidedAttentionLoss_reset_always_stateless [of
        "GuidedAttentionLoss_init (2/5) 1 True"
        "\<lparr>dims = [2, 2, 2], entries = [[[0, 0], [0, 0]], [[0, 1], [0, 0]]]\<rparr>" "[2, 1]" "[2, 1]"
        0 "GuidedAttentionLoss_init (2/5) 1 True"
        "GuidedAttentionLoss_init (2/5) 1 True"
        "\<lparr>dims = [1, 2, 1, 1], entries = [[[[3]], [[4]]]]\<rparr>" "[1]" "[1]"
        0 "GuidedAttentionLoss_init (2/5) 1 True"
        "[(\<lparr>dims = [2, 2, 2], entries = [[[0, 0], [0, 0]], [[0, 0], [0, 0]]]\<rparr>, [2, 2], [2, 2]),
          (\<lparr>dims = [2, 2, 2], entries = [[[0, 0], [0, 0]], [[0, 1], [0, 0]]]\<rparr>, [2, 1], [2, 1])]"
        "2/5" 1
        "[(\<lparr>dims = [1, 2, 1, 1], entries = [[[[3]], [[4]]]]\<rparr>, [1], [1])]"]
    by (simp add: GuidedAttentionLoss_init_def)
qed

subsection \<open>Masked L1 loss\<close>

lemma concat_map2_flatten:
  assumes "length xs = length ys"
    and "\<And>x y. (x, y) \<in> set (zip xs ys) \<Longrightarrow>
           flatten (g x y) = map2 f (flatten x) (flatten y)
           \<and> length (flatten x) = length (flatten y)"
  shows "concat (map flatten (map2 g xs ys))
           = map2 f (concat (map flatten xs)) (concat (map flatten ys))
         \<and> length (concat (map flatten xs)) = length (concat (map flatten ys))"
  using assms
proof (induction xs ys rule: list_induct2)
  case Nil
  show ?case by simp
next
  case (Cons x xs y ys)
  have hd: "flatten (g x y) = map2 f (flatten x) (flatten y)"
    "length (flatten x) = length (flatten y)"
    using Cons.prems [of x y] by simp_all
  have tl: "concat (map flatten (map2 g xs ys))
           = map2 f (concat (map flatten xs)) (concat (map flatten ys))"
    "length (concat (map flatten xs)) = length (concat (map flatten ys))"
    using Cons.IH Cons.prems by simp_all
  show ?case using hd tl by simp
qed

lemma flatten_elementwise_same:
  "rectangular a \<Longrightarrow> rectangular b \<Longrightarrow> shape a = shape b \<Longrightarrow>
     flatten (elementwise f a b) = map2 f (flatten a) (flatten b)
     \<and> length (flatten a) = length (flatten b)"
proof (induction f a b rule: elementwise.induct)
  case (1 f x y)
  show ?case by simp
next
  case (2 f x ys)
  from "2.prems" show ?case by simp
next
  case (3 f xs y)
  from "3.prems" show ?case by simp
next
  case (4 f xs ys)
  have len: "length xs = length ys" using "4.prems" by simp
  have rk: "length (shape (Tensor xs)) = length (shape (Tensor ys))"
    using "4.prems" by simp
  have elem: "rectangular x \<and> rectangular y \<and> shape x = shape y"
    if xy: "(x, y) \<in> set (zip xs ys)" for x y
  proof -
    have mx: "x \<in> set xs" and my: "y \<in> set ys"
      using xy by (auto dest: set_zip_leftD set_zip_rightD)
    then obtain x0 xs' y0 ys' where c: "xs = x0 # xs'" "ys = y0 # ys'"
      by (cases xs; cases ys) auto
    have "shape x0 = shape y0" using "4.prems"(3) c by simp
    moreover have "rectangular x \<and> shape x = shape x0"
      using "4.prems"(1) mx c by (auto simp: list_all_iff)
    moreover have "rectangular y \<and> shape y = shape y0"
      using "4.prems"(2) my c by (auto simp: list_all_iff)
    ultimately show ?thesis by simp
  qed
  show ?case
  proof (cases "\<exists>x. xs = [x]")
    case True
    then obtain x where x: "xs = [x]" by blast
    then obtain y where y: "ys = [y]" using len by (cases ys) auto
    have "rectangular x \<and> rectangular y \<and> shape x = shape y"
      using elem [of x y] x y by simp
    then have "flatten (elementwise f x y) = map2 f (flatten x) (flatten y)
         \<and> length (flatten x) = length (flatten y)"
      using "4.IH"(6) [of x "[]" y] rk x y by simp
    then show ?thesis using rk x y by simp
  next
    case False
    then have nx: "\<And>x. xs \<noteq> [x]" by blast
    have ny: "\<And>y. ys \<noteq> [y]" using nx len by (cases xs) auto
    have step: "flatten (elementwise f x y) = map2 f (flatten x) (flatten y)
         \<and> length (flatten x) = length (flatten y)"
      if xy: "(x, y) \<in> set (zip xs ys)" for x y
    proof (cases xs)
      case Nil
      then show ?thesis using xy by simp
    next
      case xc: (Cons x1 xs1)
      show ?thesis
      proof (cases ys)
        case Nil
        then show ?thesis using xy by simp
      next
        case yc: (Cons y1 ys1)
        obtain x2 xs2 where xs1: "xs1 = x2 # xs2" using nx xc by (cases xs1) auto
        obtain y2 ys2 where ys1: "ys1 = y2 # ys2" using ny yc by (cases ys1) auto
        show ?thesis
          using "4.IH"(9) [of x1 xs1 x2 xs2 y1 ys1 y2 ys2 "(x, y)" x y] rk xy elem [OF xy]
            xc xs1 yc ys1
          by simp
      qed
    qed
    have res: "elementwise f (Tensor xs) (Tensor ys) = Tensor (map2 (elementwise f) xs ys)"
      using rk nx ny by (auto split: list.splits)
    show ?thesis
      using concat_map2_flatten [OF len, of "elementwise f" f] step res by simp
  qed
qed


text \<open>
  Claim C6. For \<open>prediction\<close>, \<open>target\<close> and \<open>mask\<close> of broadcast-compatible shapes,
  \<open>masked_l1_loss\<close> is \<open>weighted_mean\<close> of the element-wise absolute error with the mask
  as weight, that is \<open>sum (error * mask) / (sum mask * (numel error / numel mask))\<close>; when
  the mask has the shape of the error, this is the mask-weighted mean of the error.
\<close>

theorem masked_l1_loss_weighted_mean:
  assumes "broadcastable prediction target"
    and "broadcastable (elementwise (\<lambda>a b. \<bar>a - b\<bar>) prediction target) mask_t"
  shows "masked_l1_loss prediction target mask_t
           = weighted_mean (elementwise (\<lambda>a b. \<bar>a - b\<bar>) prediction target) mask_t \<and>
         masked_l1_loss prediction target mask_t
           = Inr (Tensor [Scalar
               (sum_all (elementwise (*) (elementwise (\<lambda>a b. \<bar>a - b\<bar>) prediction target) mask_t)
                / (sum_all mask_t
                   * (real (numel (elementwise (\<lambda>a b. \<bar>a - b\<bar>) prediction target))
                      / real (numel mask_t))))]) \<and>
         (rectangular (elementwise (\<lambda>a b. \<bar>a - b\<bar>) prediction target) \<and> rectangular mask_t \<and>
          shape mask_t = shape (elementwise (\<lambda>a b. \<bar>a - b\<bar>) prediction target) \<and>
          0 < numel mask_t \<longrightarrow>
          masked_l1_loss prediction target mask_t
            = Inr (Tensor [Scalar
                (sum_list (map2 (*) (flatten (elementwise (\<lambda>a b. \<bar>a - b\<bar>) prediction target))
                                   (flatten mask_t))
                 / sum_list (flatten mask_t))]))"
proof -
  define E where "E = elementwise (\<lambda>a b. \<bar>a - b\<bar>) prediction target"
  have m: "masked_l1_loss prediction target mask_t = weighted_mean E mask_t"
    using assms(1) by (simp add: masked_l1_loss_def l1_loss_none_def E_def)
  have w: "weighted_mean E mask_t = Inr (Tensor [Scalar
               (sum_all (elementwise (*) E mask_t)
                / (sum_all mask_t * (real (numel E) / real (numel mask_t))))])"
    using assms(2) by (simp add: weighted_mean_def tensor_multiply_def E_def)
  have s: "weighted_mean E mask_t = Inr (Tensor [Scalar
                (sum_list (map2 (*) (flatten E) (flatten mask_t)) / sum_list (flatten mask_t))])"
    if r: "rectangular E" "rectangular mask_t" "shape mask_t = shape E" "0 < numel mask_t"
  proof -
    have f: "flatten (elementwise (*) E mask_t) = map2 (*) (flatten E) (flatten mask_t)"
      and l: "length (flatten E) = length (flatten mask_t)"
      using flatten_elementwise_same [of E mask_t "(*)"] r by simp_all
    have "real (numel E) / real (numel mask_t) = 1"
      using l r(4) by (simp add: numel_def)
    then show ?thesis using w f by (simp add: sum_all_def)
  qed
  show ?thesis using m w s unfolding E_def by simp
qed

theorem masked_l1_loss_weighted_mean_witness:
  "masked_l1_loss (Tensor [Scalar 1, Scalar 3]) (Tensor [Scalar 2, Scalar 1])
     (Tensor [Scalar 1, Scalar 0]) = Inr (Tensor [Scalar 1]) \<and>
   masked_l1_loss (Tensor [Tensor [Scalar 1, Scalar 3], Tensor [Scalar 0, Scalar 5]])
     (Tensor [Scalar 2, Scalar 1]) (Tensor [Tensor [Scalar 1], Tensor [Scalar 0]])
     = Inr (Tensor [Scalar (3 / 2)])"
  using masked_l1_loss_weighted_mean [of "Tensor [Scalar 1, Scalar 3]"
      "Tensor [Scalar 2, Scalar 1]" "Tensor [Scalar 1, Scalar 0]"]
    masked_l1_loss_weighted_mean [of "Tensor [Tensor [Scalar 1, Scalar 3], Tensor [Scalar 0, Scalar 5]]"
      "Tensor [Scalar 2, Scalar 1]" "Tensor [Tensor [Scalar 1], Tensor [Scalar 0]]"]
  by (simp add: broadcastable_def sum_all_def numel_def weighted_mean_def tensor_multiply_def)

subsection \<open>Generator adversarial loss\<close>

lemma adv_loop_sum:
  assumes "\<forall>d \<in> set outs. d \<noteq> OutList []"
  shows "adv_loop crit outs k (a, i) =
     Inr (a + sum_list (map (\<lambda>d. crit (case d of Out t \<Rightarrow> t | OutList ts \<Rightarrow> last ts)) outs),
          if outs = [] then i else Some (k + length outs - 1))"
  using assms
proof (induction outs arbitrary: k a i)
  case Nil
  show ?case by simp
next
  case (Cons d outs)
  then show ?case by (cases d) (auto simp: algebra_simps)
qed

text \<open>
  Claim C7. On a non-empty list of n discriminator outputs (a list-valued output has a
  last element), \<open>forward\<close> returns the sum of the criterion over the outputs, each
  feature-map list represented by its last element, divided by n when
  \<open>average_by_discriminators\<close> is set and undivided otherwise; on the empty list with
  averaging it raises, the loop index being unbound.
\<close>

theorem GeneratorAdversarialLoss_forward_spec:
  "(outs \<noteq> [] \<and> (\<forall>d \<in> set outs. d \<noteq> OutList []) \<longrightarrow>
      GeneratorAdversarialLoss_forward self (OutputsList outs) =
        Inr (if average_by_discriminators self
             then sum_list (map (\<lambda>d. criterion self
                                        (case d of Out t \<Rightarrow> t | OutList ts \<Rightarrow> last ts)) outs)
                  / real (length outs)
             else sum_list (map (\<lambda>d. criterion self
                                        (case d of Out t \<Rightarrow> t | OutList ts \<Rightarrow> last ts)) outs)))
   \<and> (average_by_discriminators self \<longrightarrow>
        GeneratorAdversarialLoss_forward self (OutputsList []) = Inl UnboundLocalError)"
proof (intro conjI impI)
  assume h: "outs \<noteq> [] \<and> (\<forall>d \<in> set outs. d \<noteq> OutList [])"
  then have n: "Suc (length outs - 1) = length outs" by (cases outs) auto
  show "GeneratorAdversarialLoss_forward self (OutputsList outs) =
        Inr (if average_by_discriminators self
             then sum_list (map (\<lambda>d. criterion self
                                        (case d of Out t \<Rightarrow> t | OutList ts \<Rightarrow> last ts)) outs)
                  / real (length outs)
             else sum_list (map (\<lambda>d. criterion self
                                        (case d of Out t \<Rightarrow> t | OutList ts \<Rightarrow> last ts)) outs))"
    using h n adv_loop_sum [of outs "criterion self" 0 0 None]
    by (simp add: GeneratorAdversarialLoss_forward_def)
next
  assume "average_by_discriminators self"
  then show "GeneratorAdversarialLoss_forward self (OutputsList []) = Inl UnboundLocalError"
    by (simp add: GeneratorAdversarialLoss_forward_def)
qed

theorem GeneratorAdversarialLoss_forward_spec_witness:
  "GeneratorAdversarialLoss_forward
     \<lparr>average_by_discriminators = True, criterion = hinge_loss\<rparr>
     (OutputsList [Out (Tensor [Scalar 1, Scalar 3]),
                   OutList [Tensor [Scalar 7], Tensor [Scalar 4]]]) = Inr (- 3) \<and>
   GeneratorAdversarialLoss_forward
     \<lparr>average_by_discriminators = True, criterion = hinge_loss\<rparr> (OutputsList [])
     = Inl UnboundLocalError"
  using GeneratorAdversarialLoss_forward_spec
    [of "[Out (Tensor [Scalar 1, Scalar 3]), OutList [Tensor [Scalar 7], Tensor [Scalar 4]]]"
        "\<lparr>average_by_discriminators = True, criterion = hinge_loss\<rparr>"]
  by (simp add: hinge_loss_def mean_def)

subsection \<open>STFT-based losses\<close>

lemma stft_losses_loop_sum:
  assumes "\<forall>k < length fs. STFTLoss_forward lib (fs ! k) x y = Inr (sc k, mg k)"
  shows "stft_losses_loop lib fs x y (a, b) =
     Inr (a + (\<Sum>k < length fs. sc k), b + (\<Sum>k < length fs. mg k))"
  using assms
proof (induction fs arbitrary: a b sc mg)
  case Nil
  show ?case by simp
next
  case (Cons f fs)
  have h: "STFTLoss_forward lib f x y = Inr (sc 0, mg 0)"
    using Cons.prems by auto
  have t: "\<forall>k < length fs. STFTLoss_forward lib (fs ! k) x y
             = Inr ((sc \<circ> Suc) k, (mg \<circ> Suc) k)"
    using Cons.prems by auto
  have "stft_losses_loop lib fs x y (a + sc 0, b + mg 0) =
      Inr (a + sc 0 + (\<Sum>k < length fs. (sc \<circ> Suc) k),
           b + mg 0 + (\<Sum>k < length fs. (mg \<circ> Suc) k))"
    using Cons.IH [OF t] by simp
  then show ?case
    using h by (simp add: sum.lessThan_Suc_shift add.assoc del: sum.lessThan_Suc)
qed


lemma set_concat_transpose: "set (concat (transpose xss)) \<subseteq> set (concat xss)"
proof (induction xss rule: transpose.induct)
  case 1
  show ?case by simp
next
  case (2 xss)
  then show ?case by auto
next
  case (3 x xs xss)
  define hs where "hs = [h. (h # t) \<leftarrow> xss]"
  define ts where "ts = [t. (h # t) \<leftarrow> xss]"
  have heads: "set hs \<subseteq> set (concat xss)"
    unfolding hs_def by (auto split: list.splits)
  have tails: "set (concat ts) \<subseteq> set (concat xss)"
    unfolding ts_def by (auto split: list.splits)
  have ih: "set (concat (transpose (xs # ts))) \<subseteq> set xs \<union> set (concat ts)"
    using 3 unfolding ts_def by simp
  have "transpose ((x # xs) # xss) = (x # hs) # transpose (xs # ts)"
    unfolding hs_def ts_def by simp
  then have "set (concat (transpose ((x # xs) # xss)))
      = insert x (set hs \<union> set (concat (transpose (xs # ts))))"
    by simp
  also have "\<dots> \<subseteq> insert x (set (concat xss) \<union> (set xs \<union> set (concat xss)))"
    using heads tails ih by blast
  also have "\<dots> = set (concat ((x # xs) # xss))" by auto
  finally show ?case .
qed

lemma clip_min_lower: "v \<in> set (concat (concat (clip_min t m))) \<Longrightarrow> m \<le> v"
  by (auto simp: clip_min_def)

lemma stft_result:
  assumes "stft lib x fs hop wl w = Inr x_mag"
  shows "\<exists>x_stft. x_mag = map transpose (map (map (map sqrt))
          (clip_min (map (map (map (\<lambda>c. (Re c)\<^sup>2 + (Im c)\<^sup>2))) x_stft) (1 / 10 ^ 7)))"
proof (cases "get_window lib w wl")
  case (Inl e)
  then show ?thesis using assms by (simp add: stft_def)
next
  case w: (Inr wt)
  show ?thesis
  proof (cases "signal_stft lib x fs hop wl (Some wt) True ''reflect'' False True")
    case (Inl e)
    then show ?thesis using assms w by (simp add: stft_def)
  next
    case (Inr x_stft)
    then have "x_mag = map transpose (map (map (map sqrt))
          (clip_min (map (map (map (\<lambda>c. (Re c)\<^sup>2 + (Im c)\<^sup>2))) x_stft) (1 / 10 ^ 7)))"
      using assms w by (simp add: stft_def)
    then show ?thesis by blast
  qed
qed

lemma concat_concat_map3:
  "concat (concat (map (map (map f)) t)) = map f (concat (concat t))"
  by (simp add: map_concat)

lemma mem_concat_concat:
  "p \<in> set q \<Longrightarrow> v \<in> set (concat p) \<Longrightarrow> v \<in> set (concat (concat q))"
  by auto

lemma stft_entries:
  assumes "stft lib x fs hop wl w = Inr x_mag" and "v \<in> set (concat (concat x_mag))"
  shows "sqrt (1 / 10 ^ 7) \<le> v"
proof -
  obtain x_stft where
    m: "x_mag = map transpose (map (map (map sqrt))
          (clip_min (map (map (map (\<lambda>c. (Re c)\<^sup>2 + (Im c)\<^sup>2))) x_stft) (1 / 10 ^ 7)))"
    using stft_result [OF assms(1)] by blast
  define P where "P = clip_min (map (map (map (\<lambda>c. (Re c)\<^sup>2 + (Im c)\<^sup>2))) x_stft) (1 / 10 ^ 7)"
  have m': "x_mag = map transpose (map (map (map sqrt)) P)" using m P_def by simp
  obtain tp where tp: "tp \<in> set x_mag" "v \<in> set (concat tp)"
    using assms(2) by auto
  obtain plane where pl: "plane \<in> set (map (map (map sqrt)) P)" "tp = transpose plane"
    using tp(1) m' by auto
  have "v \<in> set (concat plane)" using set_concat_transpose [of plane] tp(2) pl(2) by blast
  then have "v \<in> set (concat (concat (map (map (map sqrt)) P)))"
    using pl(1) by (rule mem_concat_concat [rotated])
  then have "v \<in> sqrt ` set (concat (concat P))"
    unfolding concat_concat_map3 by simp
  then obtain u where u: "u \<in> set (concat (concat P))" "v = sqrt u" by blast
  have "1 / 10 ^ 7 \<le> u" using clip_min_lower [of u] u(1) unfolding P_def by blast
  then show ?thesis using u(2) by simp
qed

text \<open>
  Claim C5. Every entry of a magnitude spectrogram returned by \<open>stft\<close> is at least
  \<open>sqrt 1e-7\<close>, hence positive. Inside \<open>STFTLoss.forward\<close> the divisor of
  \<open>SpectralConvergenceLoss\<close> is at least \<open>1e-10\<close> and the arguments of the logarithms
  in \<open>LogSTFTMagnitudeLoss\<close> (clipped at \<open>epsilon = 1e-7\<close>) are positive: there is no
  division by zero and no logarithm of zero.
\<close>

theorem stft_magnitude_positive:
  assumes "stft lib x fs hop wl w = Inr x_mag" and "stft lib y fs hop wl w = Inr y_mag"
  shows "(\<forall>v \<in> set (concat (concat x_mag)). sqrt (1 / 10 ^ 7) \<le> v \<and> 0 < v) \<and>
     (\<forall>v \<in> set (concat (concat y_mag)). sqrt (1 / 10 ^ 7) \<le> v \<and> 0 < v) \<and>
     1 / 10 ^ 10 \<le> SpectralConvergenceLoss_denominator y_mag \<and>
     0 < SpectralConvergenceLoss_denominator y_mag \<and>
     epsilon (log_stft_magnitude_loss (STFTLoss_init fs hop wl w)) = 1 / 10 ^ 7 \<and>
     (\<forall>v \<in> set (concat (concat (clip_min y_mag
                   (epsilon (log_stft_magnitude_loss (STFTLoss_init fs hop wl w)))))). 0 < v) \<and>
     (\<forall>v \<in> set (concat (concat (clip_min x_mag
                   (epsilon (log_stft_magnitude_loss (STFTLoss_init fs hop wl w)))))). 0 < v)"
proof -
  have pos: "(0 :: real) < sqrt (1 / 10 ^ 7)" by simp
  have ex: "\<forall>v \<in> set (concat (concat x_mag)). sqrt (1 / 10 ^ 7) \<le> v \<and> 0 < v"
    using stft_entries [OF assms(1)] pos by (metis less_le_trans)
  have ey: "\<forall>v \<in> set (concat (concat y_mag)). sqrt (1 / 10 ^ 7) \<le> v \<and> 0 < v"
    using stft_entries [OF assms(2)] pos by (metis less_le_trans)
  have d: "1 / 10 ^ 10 \<le> SpectralConvergenceLoss_denominator y_mag"
    by (simp add: SpectralConvergenceLoss_denominator_def)
  then have d0: "0 < SpectralConvergenceLoss_denominator y_mag"
    by (simp add: SpectralConvergenceLoss_denominator_def less_max_iff_disj)
  have e: "epsilon (log_stft_magnitude_loss (STFTLoss_init fs hop wl w)) = 1 / 10 ^ 7"
    by (simp add: STFTLoss_init_def LogSTFTMagnitudeLoss_init_def)
  have c: "\<forall>v \<in> set (concat (concat (clip_min t (1 / 10 ^ 7)))). 0 < v" for t
  proof
    fix v assume "v \<in> set (concat (concat (clip_min t (1 / 10 ^ 7))))"
    then have "1 / 10 ^ 7 \<le> v" by (rule clip_min_lower)
    moreover have "(0 :: real) < 1 / 10 ^ 7" by simp
    ultimately show "0 < v" by linarith
  qed
  have cy: "\<forall>v \<in> set (concat (concat (clip_min y_mag
                   (epsilon (log_stft_magnitude_loss (STFTLoss_init fs hop wl w)))))). 0 < v"
    using c [of y_mag] by (simp only: e)
  have cx: "\<forall>v \<in> set (concat (concat (clip_min x_mag
                   (epsilon (log_stft_magnitude_loss (STFTLoss_init fs hop wl w)))))). 0 < v"
    using c [of x_mag] by (simp only: e)
  show ?thesis using ex ey d d0 e cy cx by blast
qed

theorem stft_magnitude_positive_witness:
  "stft \<lparr>get_window = (\<lambda>w n. Inr (replicate n 1)),
         signal_stft = (\<lambda>x n h wl w c p nz os. Inr [[[Complex 0 0, Complex 3 4]]]),
         windows_hasattr = (\<lambda>w. True),
         librosa_mel = (\<lambda>sr n m lo hi. Inr [])\<rparr> (Signal2 [[0, 0]]) 2 1 2 ''hann''
     = Inr [[[sqrt (1 / 10 ^ 7)], [sqrt 25]]] \<and>
   sqrt (1 / 10 ^ 7) \<le> sqrt (1 / 10 ^ 7) \<and> sqrt (1 / 10 ^ 7) \<le> sqrt 25 \<and>
   0 < SpectralConvergenceLoss_denominator [[[sqrt (1 / 10 ^ 7)], [sqrt 25]]]"
  using stft_magnitude_positive [of
      "\<lparr>get_window = (\<lambda>w n. Inr (replicate n 1)),
         signal_stft = (\<lambda>x n h wl w c p nz os. Inr [[[Complex 0 0, Complex 3 4]]]),
         windows_hasattr = (\<lambda>w. True),
         librosa_mel = (\<lambda>sr n m lo hi. Inr [])\<rparr>" "Signal2 [[0, 0]]" 2 1 2 "''hann''"
      "[[[sqrt (1 / 10 ^ 7)], [sqrt 25]]]" "Signal2 [[0, 0]]" "[[[sqrt (1 / 10 ^ 7)], [sqrt 25]]]"]
  by (simp add: stft_def clip_min_def)

text \<open>
  Claim C3. For lists \<open>fft_sizes\<close>, \<open>hop_sizes\<close>, \<open>win_lengths\<close> of one length n \<ge> 1,
  \<open>MultiResolutionSTFTLoss.forward\<close> returns the arithmetic means over the n resolutions
  of the spectral convergence losses and of the log STFT magnitude losses that
  \<open>STFTLoss(fft_sizes[k], hop_sizes[k], win_lengths[k], window)\<close> computes on (x, y);
  inputs of shape (B, C, T) are reshaped to (B * C, T) first.
\<close>

theorem MultiResolutionSTFTLoss_forward_mean:
  assumes "MultiResolutionSTFTLoss_init fft_sizes hop_sizes win_lengths w = Inr self"
    and "1 \<le> length fft_sizes"
    and "\<forall>k < length fft_sizes.
           STFTLoss_forward lib (STFTLoss_init (fft_sizes ! k) (hop_sizes ! k) (win_lengths ! k) w)
             (Signal2 x) (Signal2 y) = Inr (sc k, mg k)"
  shows "MultiResolutionSTFTLoss_forward lib self (Signal2 x) (Signal2 y) =
           Inr ((\<Sum>k < length fft_sizes. sc k) / real (length fft_sizes),
                (\<Sum>k < length fft_sizes. mg k) / real (length fft_sizes)) \<and>
         MultiResolutionSTFTLoss_forward lib self (Signal3 x3) (Signal3 y3) =
           MultiResolutionSTFTLoss_forward lib self (Signal2 (concat x3)) (Signal2 (concat y3))"
proof -
  have len: "length fft_sizes = length hop_sizes" "length hop_sizes = length win_lengths"
    using assms(1) by (auto simp: MultiResolutionSTFTLoss_init_def split: if_splits)
  have self: "stft_losses self = map (\<lambda>(fs, ss, wl). STFTLoss_init fs ss wl w)
                    (zip fft_sizes (zip hop_sizes win_lengths))"
    using assms(1) by (auto simp: MultiResolutionSTFTLoss_init_def split: if_splits)
  have n: "length (stft_losses self) = length fft_sizes"
    using self len by simp
  have each: "\<forall>k < length (stft_losses self).
      STFTLoss_forward lib (stft_losses self ! k) (Signal2 x) (Signal2 y) = Inr (sc k, mg k)"
    using assms(3) len by (simp add: self)
  have loop: "stft_losses_loop lib (stft_losses self) (Signal2 x) (Signal2 y) (0, 0) =
      Inr ((\<Sum>k < length fft_sizes. sc k), (\<Sum>k < length fft_sizes. mg k))"
    using stft_losses_loop_sum [OF each, of 0 0] n by simp
  have a: "MultiResolutionSTFTLoss_forward lib self (Signal2 x) (Signal2 y) =
           Inr ((\<Sum>k < length fft_sizes. sc k) / real (length fft_sizes),
                (\<Sum>k < length fft_sizes. mg k) / real (length fft_sizes))"
    using loop n assms(2) by (cases fft_sizes) (simp_all add: MultiResolutionSTFTLoss_forward_def)
  have b: "MultiResolutionSTFTLoss_forward lib self (Signal3 x3) (Signal3 y3) =
           MultiResolutionSTFTLoss_forward lib self (Signal2 (concat x3)) (Signal2 (concat y3))"
    by (simp add: MultiResolutionSTFTLoss_forward_def)
  show ?thesis using a b by simp
qed

theorem MultiResolutionSTFTLoss_forward_mean_witness:
  "MultiResolutionSTFTLoss_forward
     \<lparr>get_window = (\<lambda>w n. Inr (replicate n 1)),
      signal_stft = (\<lambda>x n h wl w c p nz os. Inr [[[Complex 0 0, Complex 3 4]]]),
      windows_hasattr = (\<lambda>w. True),
      librosa_mel = (\<lambda>sr n m lo hi. Inr [])\<rparr>
     \<lparr>stft_losses = [STFTLoss_init 4 1 2 ''hann'', STFTLoss_init 8 2 4 ''hann'']\<rparr>
     (Signal2 [[1, 2], [3, 4]]) (Signal2 [[1, 2], [3, 5]]) = Inr (0, 0) \<and>
   MultiResolutionSTFTLoss_forward
     \<lparr>get_window = (\<lambda>w n. Inr (replicate n 1)),
      signal_stft = (\<lambda>x n h wl w c p nz os. Inr [[[Complex 0 0, Complex 3 4]]]),
      windows_hasattr = (\<lambda>w. True),
      librosa_mel = (\<lambda>sr n m lo hi. Inr [])\<rparr>
     \<lparr>stft_losses = [STFTLoss_init 4 1 2 ''hann'', STFTLoss_init 8 2 4 ''hann'']\<rparr>
     (Signal3 [[[1, 2]], [[3, 4]]]) (Signal3 [[[1, 2]], [[3, 5]]]) = Inr (0, 0)"
  using MultiResolutionSTFTLoss_forward_mean [of "[4, 8]" "[1, 2]" "[2, 4]" "''hann''"
      "\<lparr>stft_losses = [STFTLoss_init 4 1 2 ''hann'', STFTLoss_init 8 2 4 ''hann'']\<rparr>"
      "\<lparr>get_window = (\<lambda>w n. Inr (replicate n 1)),
        signal_stft = (\<lambda>x n h wl w c p nz os. Inr [[[Complex 0 0, Complex 3 4]]]),
        windows_hasattr = (\<lambda>w. True),
        librosa_mel = (\<lambda>sr n m lo hi. Inr [])\<rparr>"
      "[[1, 2], [3, 4]]" "[[1, 2], [3, 5]]" "\<lambda>k. 0" "\<lambda>k. 0"
      "[[[1, 2]], [[3, 4]]]" "[[[1, 2]], [[3, 5]]]"]
  by (simp add: MultiResolutionSTFTLoss_init_def STFTLoss_forward_def stft_def clip_min_def
      SpectralConvergenceLoss_forward_def frobenius_norm_def LogSTFTMagnitudeLoss_forward_def
      mean_def less_Suc_eq all_conj_distrib)

subsection \<open>Mel spectrogram\<close>

lemma MelSpectrogram_init_cases:
  "MelSpectrogram_init lib fs fft_sz hop_sz win_len wdw num_mels fmin fmax cntr nrm ones ep lb =
     (if \<exists>name. wdw = Some name \<and> \<not> windows_hasattr lib name then Inl ValueError
      else
        (case librosa_mel lib fs fft_sz num_mels
                (case fmin of None \<Rightarrow> 0 | Some v \<Rightarrow> v)
                (case fmax of None \<Rightarrow> fs / 2 | Some v \<Rightarrow> v) of
           Inl e \<Rightarrow> Inl e
         | Inr mel \<Rightarrow>
             (if lb \<noteq> None \<and> lb \<noteq> Some 2 \<and> lb \<noteq> Some 10 then Inl ValueError
              else Inr \<lparr>fft_size = fft_sz,
                        win_length = (case win_len of None \<Rightarrow> fft_sz | Some l \<Rightarrow> l),
                        hop_size = hop_sz, center = cntr, normalized = nrm, onesided = ones,
                        window = wdw, eps = ep, melmat = transpose mel, log_base = lb,
                        log_op = (if lb = None then paddle_log
                                  else if lb = Some 2 then paddle_log2 else paddle_log10)\<rparr>)))"
  by (cases wdw) (auto simp: MelSpectrogram_init_def Let_def split: sum.splits)

text \<open>
  Claim C8 fails as stated: \<open>librosa.filters.mel\<close> is called between the check of the
  window and the chain on \<open>log_base\<close>, and it can raise. With \<open>fft_size = 0\<close> it divides
  by zero; then a constructor call with the unsupported \<open>log_base = 3\<close> raises
  \<open>ZeroDivisionError\<close>, not \<open>ValueError\<close>.
\<close>

theorem MelSpectrogram_init_librosa_counterexample:
  "MelSpectrogram_init
     \<lparr>get_window = (\<lambda>w n. Inr (replicate n 1)),
      signal_stft = (\<lambda>x n h wl w c p nz os. Inr [[[Complex 0 0], [Complex 3 4]]]),
      windows_hasattr = (\<lambda>w. w = ''hann''),
      librosa_mel = (\<lambda>sr n m lo hi. if n = 0 then Inl ZeroDivisionError else Inr [[1, 1]])\<rparr>
     22050 0 256 None (Some ''hann'') 80 (Some 80) (Some 7600) True False True (1 / 10 ^ 10)
     (Some 3) = Inl ZeroDivisionError \<and>
   MelSpectrogram_init
     \<lparr>get_window = (\<lambda>w n. Inr (replicate n 1)),
      signal_stft = (\<lambda>x n h wl w c p nz os. Inr [[[Complex 0 0], [Complex 3 4]]]),
      windows_hasattr = (\<lambda>w. w = ''hann''),
      librosa_mel = (\<lambda>sr n m lo hi. if n = 0 then Inl ZeroDivisionError else Inr [[1, 1]])\<rparr>
     22050 0 256 None (Some ''hann'') 80 (Some 80) (Some 7600) True False True (1 / 10 ^ 10)
     (Some 3) \<noteq> Inl ValueError"
  by (simp add: MelSpectrogram_init_cases)

text \<open>
  Claim C8, amended. \<open>MelSpectrogram.__init__\<close> raises \<open>ValueError\<close> when \<open>window\<close> is a
  name that is no attribute of \<open>scipy.signal.windows\<close>. Otherwise an exception of
  \<open>librosa.filters.mel\<close> leaves the constructor, and when \<open>librosa.filters.mel\<close> returns,
  the constructor raises if and only if \<open>log_base\<close> is none of \<open>None\<close>, 2.0 and 10.0, and
  then \<open>ValueError\<close>. When construction succeeds, \<open>forward\<close> applies the natural, the
  base-2 or the base-10 logarithm, respectively, to the mel spectrogram.
\<close>

theorem MelSpectrogram_init_ValueError:
  "((\<exists>name. wdw = Some name \<and> \<not> windows_hasattr lib name) \<longrightarrow>
      MelSpectrogram_init lib fs fft_sz hop_sz win_len wdw num_mels fmin fmax cntr nrm ones
        ep lb = Inl ValueError) \<and>
   (\<not> (\<exists>name. wdw = Some name \<and> \<not> windows_hasattr lib name) \<and>
    librosa_mel lib fs fft_sz num_mels (case fmin of None \<Rightarrow> 0 | Some v \<Rightarrow> v)
      (case fmax of None \<Rightarrow> fs / 2 | Some v \<Rightarrow> v) = Inl err \<longrightarrow>
      MelSpectrogram_init lib fs fft_sz hop_sz win_len wdw num_mels fmin fmax cntr nrm ones
        ep lb = Inl err) \<and>
   (\<not> (\<exists>name. wdw = Some name \<and> \<not> windows_hasattr lib name) \<and>
    librosa_mel lib fs fft_sz num_mels (case fmin of None \<Rightarrow> 0 | Some v \<Rightarrow> v)
      (case fmax of None \<Rightarrow> fs / 2 | Some v \<Rightarrow> v) = Inr mel \<longrightarrow>
      ((\<exists>e. MelSpectrogram_init lib fs fft_sz hop_sz win_len wdw num_mels fmin fmax cntr nrm
              ones ep lb = Inl e)
         \<longleftrightarrow> lb \<noteq> None \<and> lb \<noteq> Some 2 \<and> lb \<noteq> Some 10) \<and>
      (\<forall>e. MelSpectrogram_init lib fs fft_sz hop_sz win_len wdw num_mels fmin fmax cntr nrm
              ones ep lb = Inl e \<longrightarrow> e = ValueError)) \<and>
   (\<forall>self. MelSpectrogram_init lib fs fft_sz hop_sz win_len wdw num_mels fmin fmax cntr nrm
            ones ep lb = Inr self \<longrightarrow>
      MelSpectrogram_forward lib self x =
        (case MelSpectrogram_x_mel lib self x of
           Inl e \<Rightarrow> Inl e
         | Inr x_mel \<Rightarrow>
             Inr (map transpose
                    (map (map (map (\<lambda>v. if lb = None then ln v
                                         else if lb = Some 2 then log 2 v
                                         else log 10 v))) x_mel))))"
proof -
  have f: "apply_log paddle_log = ln" "apply_log paddle_log2 = log 2"
    "apply_log paddle_log10 = log 10"
    by (rule ext, simp)+
  show ?thesis
    unfolding MelSpectrogram_init_cases
    by (auto simp: MelSpectrogram_forward_def f split: sum.splits)
qed

theorem MelSpectrogram_init_ValueError_witness:
  "MelSpectrogram_init
     \<lparr>get_window = (\<lambda>w n. Inr (replicate n 1)),
      signal_stft = (\<lambda>x n h wl w c p nz os. Inr [[[Complex 0 0], [Complex 3 4]]]),
      windows_hasattr = (\<lambda>w. w = ''hann''),
      librosa_mel = (\<lambda>sr n m lo hi. if n = 0 then Inl ZeroDivisionError else Inr [[1, 1]])\<rparr>
     22050 1024 256 None (Some ''hann'') 80 (Some 80) (Some 7600) True False True (1 / 10 ^ 10)
     (Some 3) = Inl ValueError \<and>
   MelSpectrogram_init
     \<lparr>get_window = (\<lambda>w n. Inr (replicate n 1)),
      signal_stft = (\<lambda>x n h wl w c p nz os. Inr [[[Complex 0 0], [Complex 3 4]]]),
      windows_hasattr = (\<lambda>w. w = ''hann''),
      librosa_mel = (\<lambda>sr n m lo hi. if n = 0 then Inl ZeroDivisionError else Inr [[1, 1]])\<rparr>
     22050 1024 256 None (Some ''han'') 80 (Some 80) (Some 7600) True False True (1 / 10 ^ 10)
     (Some 10) = Inl ValueError \<and>
   MelSpectrogram_init
     \<lparr>get_window = (\<lambda>w n. Inr (replicate n 1)),
      signal_stft = (\<lambda>x n h wl w c p nz os. Inr [[[Complex 0 0], [Complex 3 4]]]),
      windows_hasattr = (\<lambda>w. w = ''hann''),
      librosa_mel = (\<lambda>sr n m lo hi. if n = 0 then Inl ZeroDivisionError else Inr [[1, 1]])\<rparr>
     22050 0 256 None (Some ''hann'') 80 (Some 80) (Some 7600) True False True (1 / 10 ^ 10)
     (Some 10) = Inl ZeroDivisionError \<and>
   MelSpectrogram_init
     \<lparr>get_window = (\<lambda>w n. Inr (replicate n 1)),
      signal_stft = (\<lambda>x n h wl w c p nz os. Inr [[[Complex 0 0], [Complex 3 4]]]),
      windows_hasattr = (\<lambda>w. w = ''hann''),
      librosa_mel = (\<lambda>sr n m lo hi. if n = 0 then Inl ZeroDivisionError else Inr [[1, 1]])\<rparr>
     22050 1024 256 None (Some ''hann'') 80 (Some 80) (Some 7600) True False True (1 / 10 ^ 10)
     (Some 10)
     = Inr \<lparr>fft_size = 1024, win_length = 1024, hop_size = 256, center = True,
            normalized = False, onesided = True, window = Some ''hann'', eps = 1 / 10 ^ 10,
            melmat = [[1], [1]], log_base = Some 10, log_op = paddle_log10\<rparr> \<and>
   MelSpectrogram_forward
     \<lparr>get_window = (\<lambda>w n. Inr (replicate n 1)),
      signal_stft = (\<lambda>x n h wl w c p nz os. Inr [[[Complex 0 0], [Complex 3 4]]]),
      windows_hasattr = (\<lambda>w. w = ''hann''),
      librosa_mel = (\<lambda>sr n m lo hi. if n = 0 then Inl ZeroDivisionError else Inr [[1, 1]])\<rparr>
     \<lparr>fft_size = 1024, win_length = 1024, hop_size = 256, center = True,
      normalized = False, onesided = True, window = Some ''hann'', eps = 1 / 10 ^ 10,
      melmat = [[1], [1]], log_base = Some 10, log_op = paddle_log10\<rparr>
     (Signal2 [[0, 0]])
     = Inr [[[log 10 (max (sqrt (1 / 10 ^ 10) + sqrt 25) (1 / 10 ^ 10))]]]"
  using MelSpectrogram_init_ValueError [of
     "Some ''hann''"
     "\<lparr>get_window = (\<lambda>w n. Inr (replicate n 1)),
      signal_stft = (\<lambda>x n h wl w c p nz os. Inr [[[Complex 0 0], [Complex 3 4]]]),
      windows_hasattr = (\<lambda>w. w = ''hann''),
      librosa_mel = (\<lambda>sr n m lo hi. if n = 0 then Inl ZeroDivisionError else Inr [[1, 1]])\<rparr>"
     22050 1024 256 None 80 "Some 80" "Some 7600" True False True "1 / 10 ^ 10"
     "Some 10" ZeroDivisionError "[[1, 1]]" "Signal2 [[0, 0]]"]
    MelSpectrogram_init_ValueError [of
     "Some ''hann''"
     "\<lparr>get_window = (\<lambda>w n. Inr (replicate n 1)),
      signal_stft = (\<lambda>x n h wl w c p nz os. Inr [[[Complex 0 0], [Complex 3 4]]]),
      windows_hasattr = (\<lambda>w. w = ''hann''),
      librosa_mel = (\<lambda>sr n m lo hi. if n = 0 then Inl ZeroDivisionError else Inr [[1, 1]])\<rparr>"
     22050 1024 256 None 80 "Some 80" "Some 7600" True False True "1 / 10 ^ 10"
     "Some 3" ZeroDivisionError "[[1, 1]]" "Signal2 [[0, 0]]"]
    MelSpectrogram_init_ValueError [of
     "Some ''han''"
     "\<lparr>get_window = (\<lambda>w n. Inr (replicate n 1)),
      signal_stft = (\<lambda>x n h wl w c p nz os. Inr [[[Complex 0 0], [Complex 3 4]]]),
      windows_hasattr = (\<lambda>w. w = ''hann''),
      librosa_mel = (\<lambda>sr n m lo hi. if n = 0 then Inl ZeroDivisionError else Inr [[1, 1]])\<rparr>"
     22050 1024 256 None 80 "Some 80" "Some 7600" True False True "1 / 10 ^ 10"
     "Some 10" ZeroDivisionError "[[1, 1]]" "Signal2 [[0, 0]]"]
    MelSpectrogram_init_ValueError [of
     "Some ''hann''"
     "\<lparr>get_window = (\<lambda>w n. Inr (replicate n 1)),
      signal_stft = (\<lambda>x n h wl w c p nz os. Inr [[[Complex 0 0], [Complex 3 4]]]),
      windows_hasattr = (\<lambda>w. w = ''hann''),
      librosa_mel = (\<lambda>sr n m lo hi. if n = 0 then Inl ZeroDivisionError else Inr [[1, 1]])\<rparr>"
     22050 0 256 None 80 "Some 80" "Some 7600" True False True "1 / 10 ^ 10"
     "Some 10" ZeroDivisionError "[[1, 1]]" "Signal2 [[0, 0]]"]
  by (simp add: MelSpectrogram_init_cases MelSpectrogram_x_mel_def clip_min_def matmul_def)

subsection \<open>Structural similarity\<close>

lemma jensen_square:
  fixes w x :: "'i \<Rightarrow> real"
  assumes "finite I" and "\<And>i. i \<in> I \<Longrightarrow> 0 \<le> w i" and "(\<Sum>i \<in> I. w i) = 1"
  shows "(\<Sum>i \<in> I. w i * x i)\<^sup>2 \<le> (\<Sum>i \<in> I. w i * (x i)\<^sup>2)"
proof -
  define m where "m = (\<Sum>i \<in> I. w i * x i)"
  have "0 \<le> (\<Sum>i \<in> I. w i * (x i - m)\<^sup>2)"
    using assms(2) by (intro sum_nonneg) simp
  also have "(\<Sum>i \<in> I. w i * (x i - m)\<^sup>2)
      = (\<Sum>i \<in> I. w i * (x i)\<^sup>2 - 2 * m * (w i * x i) + m\<^sup>2 * w i)"
    by (intro sum.cong) (simp_all add: power2_eq_square algebra_simps)
  also have "\<dots> = (\<Sum>i \<in> I. w i * (x i)\<^sup>2) - 2 * m * (\<Sum>i \<in> I. w i * x i)
                     + m\<^sup>2 * (\<Sum>i \<in> I. w i)"
    by (simp add: sum.distrib sum_subtractf sum_distrib_left)
  also have "\<dots> = (\<Sum>i \<in> I. w i * (x i)\<^sup>2) - m\<^sup>2"
    using assms(3) by (simp add: m_def power2_eq_square)
  finally show ?thesis by (simp add: m_def)
qed

lemma jensen_square2:
  fixes k x :: "nat \<Rightarrow> nat \<Rightarrow> real"
  assumes "\<And>a b. a < n \<Longrightarrow> b < m \<Longrightarrow> 0 \<le> k a b"
    and "(\<Sum>a<n. \<Sum>b<m. k a b) = 1"
  shows "(\<Sum>a<n. \<Sum>b<m. k a b * x a b)\<^sup>2 \<le> (\<Sum>a<n. \<Sum>b<m. k a b * (x a b)\<^sup>2)"
proof -
  have "(\<Sum>i \<in> {..<n} \<times> {..<m}. (case i of (a, b) \<Rightarrow> k a b) * (case i of (a, b) \<Rightarrow> x a b))\<^sup>2
      \<le> (\<Sum>i \<in> {..<n} \<times> {..<m}. (case i of (a, b) \<Rightarrow> k a b) * ((case i of (a, b) \<Rightarrow> x a b))\<^sup>2)"
  proof (rule jensen_square)
    show "finite ({..<n} \<times> {..<m})" by simp
    show "0 \<le> (case i of (a, b) \<Rightarrow> k a b)" if "i \<in> {..<n} \<times> {..<m}" for i
      using that assms(1) by auto
    show "(\<Sum>i \<in> {..<n} \<times> {..<m}. case i of (a, b) \<Rightarrow> k a b) = 1"
      using assms(2) by (simp add: sum.cartesian_product)
  qed
  then show ?thesis
    by (simp add: sum.cartesian_product case_prod_unfold)
qed

lemma sum_list_map_divide:
  "sum_list (map (\<lambda>v. v / c) xs) = sum_list xs / (c :: real)"
  by (induction xs) (simp_all add: add_divide_distrib)

lemma gaussian_length: "length (gaussian ws sg) = ws"
  by (simp add: gaussian_def Let_def)

lemma gaussian_props:
  assumes "1 \<le> ws"
  shows "sum_list (gaussian ws sg) = 1" and "\<forall>v \<in> set (gaussian ws sg). 0 \<le> v"
proof -
  define gauss where "gauss = map (\<lambda>x. exp (- real_of_int ((int x - int (ws div 2))\<^sup>2)
                                 / (2 * sg\<^sup>2))) [0..<ws]"
  have g: "gaussian ws sg = map (\<lambda>v. v / sum_list gauss) gauss"
    by (simp add: gaussian_def gauss_def Let_def)
  have pos: "\<forall>v \<in> set gauss. 0 < v" by (auto simp: gauss_def)
  have ne: "gauss \<noteq> []" using assms by (simp add: gauss_def)
  have s: "0 < sum_list gauss"
  proof -
    obtain v vs where c: "gauss = v # vs" using ne by (cases gauss) auto
    have "0 \<le> sum_list vs" using pos c by (intro sum_list_nonneg) (auto intro: less_imp_le)
    moreover have "0 < v" using pos c by simp
    ultimately show ?thesis using c by simp
  qed
  show "sum_list (gaussian ws sg) = 1"
    using s by (simp add: g sum_list_map_divide)
  show "\<forall>v \<in> set (gaussian ws sg). 0 \<le> v"
    using pos s by (auto simp: g intro!: divide_nonneg_nonneg less_imp_le)
qed

lemma sum_list_nth_sum: "sum_list xs = (\<Sum>i<length xs. xs ! i)" for xs :: "real list"
  by (simp add: sum_list_sum_nth atLeast0LessThan)

lemma kernel_props:
  assumes "1 \<le> ws"
  defines "k \<equiv> map (\<lambda>a. map (\<lambda>b. a * b) (gaussian ws (3 / 2))) (gaussian ws (3 / 2))"
  shows "has_shape2 k ws ws"
    and "\<And>a b. a < ws \<Longrightarrow> b < ws \<Longrightarrow> 0 \<le> k ! a ! b"
    and "(\<Sum>a<ws. \<Sum>b<ws. k ! a ! b) = 1"
proof -
  define g where "g = gaussian ws (3 / 2)"
  have l: "length g = ws" by (simp add: g_def gaussian_length)
  have s: "sum_list g = 1" and p: "\<forall>v \<in> set g. 0 \<le> v"
    using gaussian_props [OF assms(1)] by (simp_all add: g_def)
  have k: "k = map (\<lambda>a. map (\<lambda>b. a * b) g) g" by (simp add: k_def g_def)
  show "has_shape2 k ws ws" by (auto simp: has_shape2_def k l)
  have e: "k ! a ! b = g ! a * g ! b" if "a < ws" "b < ws" for a b
    using that l by (simp add: k)
  show "0 \<le> k ! a ! b" if "a < ws" "b < ws" for a b
    using that p l by (simp add: e)
  have "(\<Sum>a<ws. \<Sum>b<ws. k ! a ! b) = (\<Sum>a<ws. \<Sum>b<ws. g ! a * g ! b)"
    using e by simp
  also have "\<dots> = (\<Sum>a<ws. g ! a) * (\<Sum>b<ws. g ! b)"
    by (simp add: sum_product)
  also have "\<dots> = 1" using s l by (simp add: sum_list_nth_sum)
  finally show "(\<Sum>a<ws. \<Sum>b<ws. k ! a ! b) = 1" .
qed


lemma map2_same: "map2 f xs xs = map (\<lambda>x. f x x) xs"
  by (simp add: zip_same_conv_map)

lemma conv2d_plane_index:
  assumes "has_shape2 x H W" "1 \<le> H" "has_shape2 k kh kw" "1 \<le> kh"
  shows "conv2d_plane x k p =
     map (\<lambda>i. map (\<lambda>j. (\<Sum>a<kh. \<Sum>b<kw. k ! a ! b * padded_at x p (i + a) (j + b)))
                   [0..<W + 2 * p + 1 - kw])
         [0..<H + 2 * p + 1 - kh]"
proof -
  obtain r rs where x: "x = r # rs" using assms(1,2) by (cases x) (auto simp: has_shape2_def)
  obtain q qs where k: "k = q # qs" using assms(3,4) by (cases k) (auto simp: has_shape2_def)
  have w: "length r = W" using assms(1,2) x by (auto simp: has_shape2_def)
  have kw: "length q = kw" using assms(3,4) k by (auto simp: has_shape2_def)
  have h: "length x = H" "length k = kh" using assms by (simp_all add: has_shape2_def)
  show ?thesis
    unfolding conv2d_plane_def Let_def h
    by (simp add: x k w kw interv_sum_list_conv_sum_set_nat atLeast0LessThan
        del: upt_Suc)
qed


lemma has_shape4_pointwise4:
  assumes "has_shape4 a B C H W" "has_shape4 b B C H W"
  shows "has_shape4 (pointwise4 f a b) B C H W"
  using assms by (simp add: has_shape4_def has_shape2_def pointwise4_def)

lemma nth_pointwise4:
  assumes "has_shape4 a B C H W" "has_shape4 b B C H W" "n < B" "c < C" "i < H" "j < W"
  shows "pointwise4 f a b ! n ! c ! i ! j = f (a ! n ! c ! i ! j) (b ! n ! c ! i ! j)"
  using assms by (simp add: has_shape4_def has_shape2_def pointwise4_def)

lemma has_shape4_map4:
  assumes "has_shape4 a B C H W"
  shows "has_shape4 (map (map (map (map f))) a) B C H W"
  using assms by (simp add: has_shape4_def has_shape2_def)

lemma nth_map4:
  assumes "has_shape4 a B C H W" "n < B" "c < C" "i < H" "j < W"
  shows "map (map (map (map f))) a ! n ! c ! i ! j = f (a ! n ! c ! i ! j)"
  using assms by (simp add: has_shape4_def has_shape2_def)

lemma conv2d_nth_plane:
  assumes "has_shape4 img B C H W" "n < B" "c < C"
  shows "conv2d img (replicate C [k]) p ! n ! c = conv2d_plane (img ! n ! c) k p"
  using assms by (simp add: conv2d_def has_shape4_def)

lemma conv2d_lengths:
  assumes "has_shape4 img B C H W"
  shows "length (conv2d img (replicate C [k]) p) = B"
    and "n < B \<Longrightarrow> length (conv2d img (replicate C [k]) p ! n) = C"
  using assms by (simp_all add: conv2d_def has_shape4_def)

lemma has_shape4_conv2d:
  assumes "has_shape4 img B C H W" "1 \<le> H" "has_shape2 k kh kw" "1 \<le> kh"
  shows "has_shape4 (conv2d img (replicate C [k]) p) B C (H + 2 * p + 1 - kh) (W + 2 * p + 1 - kw)"
proof -
  have pl: "has_shape2 (conv2d_plane (img ! n ! c) k p) (H + 2 * p + 1 - kh) (W + 2 * p + 1 - kw)"
    if "n < B" "c < C" for n c
  proof -
    have "has_shape2 (img ! n ! c) H W" using assms(1) that by (simp add: has_shape4_def)
    then show ?thesis
      using conv2d_plane_index [OF _ assms(2) assms(3) assms(4), of "img ! n ! c" W p]
      by (simp add: has_shape2_def)
  qed
  show ?thesis
    using conv2d_nth_plane [OF assms(1)] conv2d_lengths [OF assms(1)] pl
    by (simp add: has_shape4_def)
qed

lemma nth_conv2d:
  assumes "has_shape4 img B C H W" "1 \<le> H" "has_shape2 k kh kw" "1 \<le> kh"
    and "n < B" "c < C" "i < H + 2 * p + 1 - kh" "j < W + 2 * p + 1 - kw"
  shows "conv2d img (replicate C [k]) p ! n ! c ! i ! j =
     (\<Sum>a<kh. \<Sum>b<kw. k ! a ! b * padded_at (img ! n ! c) p (i + a) (j + b))"
proof -
  have "has_shape2 (img ! n ! c) H W" using assms by (simp add: has_shape4_def)
  then show ?thesis
    using conv2d_plane_index [OF _ assms(2) assms(3) assms(4), of "img ! n ! c" W p]
      conv2d_nth_plane [OF assms(1) assms(5) assms(6), of k p] assms(7,8)
    by simp
qed


lemma ssim_map_entries:
  fixes img1 img2 :: "real list list list list" and k :: "real list list"
    and ws B C H W kh kw :: nat
  assumes s1: "has_shape4 img1 B C H W" and s2: "has_shape4 img2 B C H W"
    and H: "1 \<le> H" and k: "has_shape2 k kh kw" and kh: "1 \<le> kh"
  defines "p \<equiv> ws div 2"
  defines "H' \<equiv> H + 2 * p + 1 - kh" and "W' \<equiv> W + 2 * p + 1 - kw"
  defines "cv \<equiv> \<lambda>img. conv2d img (replicate C [k]) p"
  shows "has_shape4 (ssim_map img1 img2 (replicate C [k]) ws) B C H' W'"
    and "\<And>n c i j. n < B \<Longrightarrow> c < C \<Longrightarrow> i < H' \<Longrightarrow> j < W' \<Longrightarrow>
       ssim_map img1 img2 (replicate C [k]) ws ! n ! c ! i ! j =
         ((2 * (cv img1 ! n ! c ! i ! j * cv img2 ! n ! c ! i ! j) + (1 / 100)\<^sup>2)
          * (2 * (cv (pointwise4 (*) img1 img2) ! n ! c ! i ! j
                  - cv img1 ! n ! c ! i ! j * cv img2 ! n ! c ! i ! j) + (3 / 100)\<^sup>2))
         / ((cv img1 ! n ! c ! i ! j * cv img1 ! n ! c ! i ! j
             + cv img2 ! n ! c ! i ! j * cv img2 ! n ! c ! i ! j + (1 / 100)\<^sup>2)
            * ((cv (pointwise4 (*) img1 img1) ! n ! c ! i ! j
                  - cv img1 ! n ! c ! i ! j * cv img1 ! n ! c ! i ! j)
               + (cv (pointwise4 (*) img2 img2) ! n ! c ! i ! j
                  - cv img2 ! n ! c ! i ! j * cv img2 ! n ! c ! i ! j) + (3 / 100)\<^sup>2))"
proof -
  define mu1 where "mu1 = cv img1"
  define mu2 where "mu2 = cv img2"
  define e11 where "e11 = cv (pointwise4 (*) img1 img1)"
  define e22 where "e22 = cv (pointwise4 (*) img2 img2)"
  define e12 where "e12 = cv (pointwise4 (*) img1 img2)"
  define mu1_sq where "mu1_sq = pointwise4 (*) mu1 mu1"
  define mu2_sq where "mu2_sq = pointwise4 (*) mu2 mu2"
  define mu1_mu2 where "mu1_mu2 = pointwise4 (*) mu1 mu2"
  define sigma1_sq where "sigma1_sq = pointwise4 (-) e11 mu1_sq"
  define sigma2_sq where "sigma2_sq = pointwise4 (-) e22 mu2_sq"
  define sigma12 where "sigma12 = pointwise4 (-) e12 mu1_mu2"
  define num1 where "num1 = map (map (map (map (\<lambda>v. 2 * v + (1 / 100)\<^sup>2)))) mu1_mu2"
  define num2 where "num2 = map (map (map (map (\<lambda>v. 2 * v + (3 / 100)\<^sup>2)))) sigma12"
  define den1 where
    "den1 = map (map (map (map (\<lambda>v. v + (1 / 100)\<^sup>2)))) (pointwise4 (+) mu1_sq mu2_sq)"
  define den2 where
    "den2 = map (map (map (map (\<lambda>v. v + (3 / 100)\<^sup>2)))) (pointwise4 (+) sigma1_sq sigma2_sq)"
  have m: "ssim_map img1 img2 (replicate C [k]) ws
      = pointwise4 (/) (pointwise4 (*) num1 num2) (pointwise4 (*) den1 den2)"
    by (simp add: ssim_map_def Let_def mu1_def mu2_def e11_def e22_def e12_def mu1_sq_def
        mu2_sq_def mu1_mu2_def sigma1_sq_def sigma2_sq_def sigma12_def num1_def num2_def
        den1_def den2_def cv_def p_def)
  have cvs: "has_shape4 (cv t) B C H' W'" if "has_shape4 t B C H W" for t
    unfolding cv_def H'_def W'_def by (rule has_shape4_conv2d [OF that H k kh])
  have sh_mu1: "has_shape4 mu1 B C H' W'" and sh_mu2: "has_shape4 mu2 B C H' W'"
    unfolding mu1_def mu2_def by (simp_all add: cvs s1 s2)
  have sh_e11: "has_shape4 e11 B C H' W'" and sh_e22: "has_shape4 e22 B C H' W'"
    and sh_e12: "has_shape4 e12 B C H' W'"
    unfolding e11_def e22_def e12_def
    by (simp_all add: cvs has_shape4_pointwise4 s1 s2)
  have sh_sq: "has_shape4 mu1_sq B C H' W'" "has_shape4 mu2_sq B C H' W'"
    "has_shape4 mu1_mu2 B C H' W'"
    unfolding mu1_sq_def mu2_sq_def mu1_mu2_def
    by (simp_all add: has_shape4_pointwise4 sh_mu1 sh_mu2)
  have sh_sg: "has_shape4 sigma1_sq B C H' W'" "has_shape4 sigma2_sq B C H' W'"
    "has_shape4 sigma12 B C H' W'"
    unfolding sigma1_sq_def sigma2_sq_def sigma12_def
    by (simp_all add: has_shape4_pointwise4 sh_sq sh_e11 sh_e22 sh_e12)
  have sh_sum: "has_shape4 (pointwise4 (+) mu1_sq mu2_sq) B C H' W'"
    "has_shape4 (pointwise4 (+) sigma1_sq sigma2_sq) B C H' W'"
    by (simp_all add: has_shape4_pointwise4 sh_sq sh_sg)
  have sh_nd: "has_shape4 num1 B C H' W'" "has_shape4 num2 B C H' W'"
    "has_shape4 den1 B C H' W'" "has_shape4 den2 B C H' W'"
    unfolding num1_def num2_def den1_def den2_def
    by (rule has_shape4_map4, simp add: sh_sq sh_sg sh_sum)+
  have sh_prod: "has_shape4 (pointwise4 (*) num1 num2) B C H' W'"
    "has_shape4 (pointwise4 (*) den1 den2) B C H' W'"
    by (simp_all add: has_shape4_pointwise4 sh_nd)
  show "has_shape4 (ssim_map img1 img2 (replicate C [k]) ws) B C H' W'"
    unfolding m by (simp add: has_shape4_pointwise4 sh_prod)
  fix n c i j
  assume r: "n < B" "c < C" "i < H'" "j < W'"
  note nth2 = nth_pointwise4 [OF _ _ r]
  note nth1 = nth_map4 [OF _ r]
  have "ssim_map img1 img2 (replicate C [k]) ws ! n ! c ! i ! j
      = (num1 ! n ! c ! i ! j * num2 ! n ! c ! i ! j)
        / (den1 ! n ! c ! i ! j * den2 ! n ! c ! i ! j)"
    unfolding m by (simp add: nth2 sh_prod sh_nd)
  also have "num1 ! n ! c ! i ! j = 2 * (mu1 ! n ! c ! i ! j * mu2 ! n ! c ! i ! j) + (1 / 100)\<^sup>2"
    unfolding num1_def mu1_mu2_def by (simp add: nth1 nth2 sh_sq [unfolded mu1_mu2_def] sh_mu1 sh_mu2)
  also have "num2 ! n ! c ! i ! j
      = 2 * (e12 ! n ! c ! i ! j - mu1 ! n ! c ! i ! j * mu2 ! n ! c ! i ! j) + (3 / 100)\<^sup>2"
    unfolding num2_def sigma12_def mu1_mu2_def
    by (simp add: nth1 nth2 sh_sg [unfolded sigma12_def mu1_mu2_def]
        sh_sq [unfolded mu1_mu2_def] sh_e12 sh_mu1 sh_mu2)
  also have "den1 ! n ! c ! i ! j
      = mu1 ! n ! c ! i ! j * mu1 ! n ! c ! i ! j + mu2 ! n ! c ! i ! j * mu2 ! n ! c ! i ! j
        + (1 / 100)\<^sup>2"
    unfolding den1_def mu1_sq_def mu2_sq_def
    by (simp add: nth1 nth2 sh_sum [unfolded mu1_sq_def mu2_sq_def]
        sh_sq [unfolded mu1_sq_def mu2_sq_def] sh_mu1 sh_mu2)
  also have "den2 ! n ! c ! i ! j
      = (e11 ! n ! c ! i ! j - mu1 ! n ! c ! i ! j * mu1 ! n ! c ! i ! j)
        + (e22 ! n ! c ! i ! j - mu2 ! n ! c ! i ! j * mu2 ! n ! c ! i ! j) + (3 / 100)\<^sup>2"
    unfolding den2_def sigma1_sq_def sigma2_sq_def mu1_sq_def mu2_sq_def
    by (simp add: nth1 nth2 sh_sum [unfolded sigma1_sq_def sigma2_sq_def mu1_sq_def mu2_sq_def]
        sh_sg [unfolded sigma1_sq_def sigma2_sq_def mu1_sq_def mu2_sq_def]
        sh_sq [unfolded mu1_sq_def mu2_sq_def] sh_e11 sh_e22 sh_mu1 sh_mu2)
  finally show "ssim_map img1 img2 (replicate C [k]) ws ! n ! c ! i ! j =
         ((2 * (cv img1 ! n ! c ! i ! j * cv img2 ! n ! c ! i ! j) + (1 / 100)\<^sup>2)
          * (2 * (cv (pointwise4 (*) img1 img2) ! n ! c ! i ! j
                  - cv img1 ! n ! c ! i ! j * cv img2 ! n ! c ! i ! j) + (3 / 100)\<^sup>2))
         / ((cv img1 ! n ! c ! i ! j * cv img1 ! n ! c ! i ! j
             + cv img2 ! n ! c ! i ! j * cv img2 ! n ! c ! i ! j + (1 / 100)\<^sup>2)
            * ((cv (pointwise4 (*) img1 img1) ! n ! c ! i ! j
                  - cv img1 ! n ! c ! i ! j * cv img1 ! n ! c ! i ! j)
               + (cv (pointwise4 (*) img2 img2) ! n ! c ! i ! j
                  - cv img2 ! n ! c ! i ! j * cv img2 ! n ! c ! i ! j) + (3 / 100)\<^sup>2))"
    unfolding mu1_def mu2_def e11_def e22_def e12_def .
qed


lemma padded_at_square:
  assumes "has_shape4 img B C H W" "n < B" "c < C"
  shows "padded_at (pointwise4 (*) img img ! n ! c) p r s = (padded_at (img ! n ! c) p r s)\<^sup>2"
proof -
  define x where "x = img ! n ! c"
  have sx: "has_shape2 x H W" using assms by (simp add: has_shape4_def x_def)
  have e: "pointwise4 (*) img img ! n ! c = map (map (\<lambda>v. v * v)) x"
    using assms by (simp add: pointwise4_def has_shape4_def x_def map2_same)
  show ?thesis
    unfolding e x_def [symmetric]
    by (simp add: padded_at_def Let_def power2_eq_square)
qed

lemma ssim_entry_one:
  fixes m e :: real
  assumes "m\<^sup>2 \<le> e"
  shows "((2 * (m * m) + (1 / 100)\<^sup>2) * (2 * (e - m * m) + (3 / 100)\<^sup>2))
         / ((m * m + m * m + (1 / 100)\<^sup>2) * ((e - m * m) + (e - m * m) + (3 / 100)\<^sup>2)) = 1"
proof -
  have a: "0 < m * m + m * m + (1 / 100)\<^sup>2"
    by (intro add_nonneg_pos add_nonneg_nonneg) simp_all
  have "0 \<le> e - m * m" using assms by (simp add: power2_eq_square)
  then have b: "0 < (e - m * m) + (e - m * m) + (3 / 100)\<^sup>2"
    by (intro add_nonneg_pos add_nonneg_nonneg) simp_all
  have n: "(2 * (m * m) + (1 / 100)\<^sup>2) * (2 * (e - m * m) + (3 / 100)\<^sup>2)
      = (m * m + m * m + (1 / 100)\<^sup>2) * ((e - m * m) + (e - m * m) + (3 / 100)\<^sup>2)"
    by (simp add: algebra_simps)
  have "(m * m + m * m + (1 / 100)\<^sup>2) * ((e - m * m) + (e - m * m) + (3 / 100)\<^sup>2) \<noteq> 0"
    using a b by simp
  then show ?thesis unfolding n by simp
qed

lemma create_window_kernel:
  "create_window ws C =
     replicate C [map (\<lambda>a. map (\<lambda>b. a * b) (gaussian ws (3 / 2))) (gaussian ws (3 / 2))]"
  by (simp add: create_window_def Let_def)

lemma ssim_map_same_entry:
  fixes img :: "real list list list list"
  assumes s: "has_shape4 img B C H W" and H: "1 \<le> H" and ws: "1 \<le> ws"
    and r: "n < B" "c < C" "i < H + 2 * (ws div 2) + 1 - ws" "j < W + 2 * (ws div 2) + 1 - ws"
  shows "ssim_map img img (create_window ws C) ws ! n ! c ! i ! j = 1"
proof -
  define k where "k = map (\<lambda>a. map (\<lambda>b. a * b) (gaussian ws (3 / 2))) (gaussian ws (3 / 2))"
  define p where "p = ws div 2"
  have ks: "has_shape2 k ws ws" and kp: "\<And>a b. a < ws \<Longrightarrow> b < ws \<Longrightarrow> 0 \<le> k ! a ! b"
    and k1: "(\<Sum>a<ws. \<Sum>b<ws. k ! a ! b) = 1"
    using kernel_props [OF ws] unfolding k_def by simp_all
  define P where "P = (\<lambda>a b. padded_at (img ! n ! c) p (i + a) (j + b))"
  define m where "m = (\<Sum>a<ws. \<Sum>b<ws. k ! a ! b * P a b)"
  define e where "e = (\<Sum>a<ws. \<Sum>b<ws. k ! a ! b * (P a b)\<^sup>2)"
  have s2: "has_shape4 (pointwise4 (*) img img) B C H W"
    by (rule has_shape4_pointwise4 [OF s s])
  have cm: "conv2d img (replicate C [k]) (ws div 2) ! n ! c ! i ! j = m"
    using nth_conv2d [OF s H ks ws r(1) r(2), of i p j] r(3,4)
    by (simp add: m_def P_def p_def)
  have ce: "conv2d (pointwise4 (*) img img) (replicate C [k]) (ws div 2) ! n ! c ! i ! j = e"
    using nth_conv2d [OF s2 H ks ws r(1) r(2), of i p j] r(3,4)
    by (simp add: e_def P_def p_def padded_at_square [OF s r(1) r(2)])
  have j: "m\<^sup>2 \<le> e"
    unfolding m_def e_def using kp k1 by (rule jensen_square2)
  have "ssim_map img img (replicate C [k]) ws ! n ! c ! i ! j =
      ((2 * (m * m) + (1 / 100)\<^sup>2) * (2 * (e - m * m) + (3 / 100)\<^sup>2))
         / ((m * m + m * m + (1 / 100)\<^sup>2) * ((e - m * m) + (e - m * m) + (3 / 100)\<^sup>2))"
    using ssim_map_entries(2) [OF s s H ks ws r(1) r(2) r(3) r(4)]
    unfolding cm ce .
  also have "\<dots> = 1" by (rule ssim_entry_one [OF j])
  finally show ?thesis
    unfolding create_window_kernel k_def .
qed


lemma constant_tensor:
  assumes "has_shape4 t B C H W"
    and "\<And>n c i j. n < B \<Longrightarrow> c < C \<Longrightarrow> i < H \<Longrightarrow> j < W \<Longrightarrow> t ! n ! c ! i ! j = v"
  shows "t = replicate B (replicate C (replicate H (replicate W v)))"
proof (rule nth_equalityI)
  show "length t = length (replicate B (replicate C (replicate H (replicate W v))))"
    using assms(1) by (simp add: has_shape4_def)
next
  fix n assume "n < length t"
  then have n: "n < B" using assms(1) by (simp add: has_shape4_def)
  have "t ! n = replicate C (replicate H (replicate W v))"
  proof (rule nth_equalityI)
    show "length (t ! n) = length (replicate C (replicate H (replicate W v)))"
      using assms(1) n by (simp add: has_shape4_def)
  next
    fix c assume "c < length (t ! n)"
    then have c: "c < C" using assms(1) n by (simp add: has_shape4_def)
    have sh: "has_shape2 (t ! n ! c) H W" using assms(1) n c by (simp add: has_shape4_def)
    have "t ! n ! c = replicate H (replicate W v)"
    proof (rule nth_equalityI)
      show "length (t ! n ! c) = length (replicate H (replicate W v))"
        using sh by (simp add: has_shape2_def)
    next
      fix i assume "i < length (t ! n ! c)"
      then have i: "i < H" using sh by (simp add: has_shape2_def)
      have "t ! n ! c ! i = replicate W v"
      proof (rule nth_equalityI)
        show "length (t ! n ! c ! i) = length (replicate W v)"
          using sh i by (simp add: has_shape2_def)
      next
        fix j assume "j < length (t ! n ! c ! i)"
        then have "j < W" using sh i by (simp add: has_shape2_def)
        then show "t ! n ! c ! i ! j = replicate W v ! j"
          using assms(2) [OF n c i] by simp
      qed
      then show "t ! n ! c ! i = replicate H (replicate W v) ! i" using i by simp
    qed
    then show "t ! n ! c = replicate C (replicate H (replicate W v)) ! c" using c by simp
  qed
  then show "t ! n = replicate B (replicate C (replicate H (replicate W v))) ! n"
    using n by simp
qed

lemma concat_replicate_replicate:
  "concat (replicate n (replicate m v)) = replicate (n * m) v"
  by (induction n) (simp_all add: replicate_add)

lemma mean_replicate: "0 < n \<Longrightarrow> mean (replicate n v) = v"
  by (simp add: mean_def sum_list_replicate)

lemma ssim_window_extent: "H \<le> H + 2 * (ws div 2) + 1 - ws" for H ws :: nat
  by presburger

text \<open>
  Claim C4. In exact arithmetic the SSIM map of an image (B, C, H, W) with itself is
  identically 1 for every window size, so \<open>ssim img img window_size True\<close> is 1: the
  window weights are non-negative and sum to 1, hence \<open>sigma1_sq\<close> is non-negative, the
  denominator is positive and equals the numerator.
\<close>

theorem ssim_same_image:
  fixes img :: "real list list list list"
  assumes "has_shape4 img B C H W"
    and "1 \<le> B" and "1 \<le> C" and "1 \<le> H" and "1 \<le> W" and "1 \<le> window_size"
  shows "ssim img img window_size True = [1] \<and>
    ssim_map img img (create_window window_size C) window_size =
      replicate B (replicate C (replicate (H + 2 * (window_size div 2) + 1 - window_size)
        (replicate (W + 2 * (window_size div 2) + 1 - window_size) 1)))"
proof -
  define H' where "H' = H + 2 * (window_size div 2) + 1 - window_size"
  define W' where "W' = W + 2 * (window_size div 2) + 1 - window_size"
  have "H \<le> H'" "W \<le> W'"
    unfolding H'_def W'_def by (rule ssim_window_extent)+
  then have "0 < H'" "0 < W'" using assms(4,5) by linarith+
  then have pos: "0 < B * C * H' * W'"
    using assms(2,3) by simp
  have ks: "has_shape2 (map (\<lambda>a. map (\<lambda>b. a * b) (gaussian window_size (3 / 2)))
                         (gaussian window_size (3 / 2))) window_size window_size"
    using kernel_props(1) [OF assms(6)] .
  have sh: "has_shape4 (ssim_map img img (create_window window_size C) window_size) B C H' W'"
    unfolding create_window_kernel H'_def W'_def
    by (rule ssim_map_entries(1) [OF assms(1) assms(1) assms(4) ks assms(6)])
  have m: "ssim_map img img (create_window window_size C) window_size
      = replicate B (replicate C (replicate H' (replicate W' 1)))"
    using sh
  proof (rule constant_tensor)
    fix n c i j assume "n < B" "c < C" "i < H'" "j < W'"
    then show "ssim_map img img (create_window window_size C) window_size ! n ! c ! i ! j = 1"
      unfolding H'_def W'_def
      by (rule ssim_map_same_entry [OF assms(1) assms(4) assms(6)])
  qed
  have ch: "(case img of [] \<Rightarrow> 0 | planes # _ \<Rightarrow> length planes) = C"
    using assms(1,2) by (cases img) (auto simp: has_shape4_def)
  have "ssim img img window_size True
      = [mean (concat (concat (concat (replicate B (replicate C (replicate H' (replicate W' 1)))))))]"
    by (simp add: ssim_def ssim_inner_def ch m)
  also have "\<dots> = [mean (replicate (B * C * H' * W') 1)]"
    by (simp add: concat_replicate_replicate mult.assoc)
  also have "\<dots> = [1]" using pos by (simp add: mean_replicate)
  finally show ?thesis using m unfolding H'_def W'_def by simp
qed


theorem ssim_same_image_witness:
  "has_shape4 [[[[2, 3 :: real], [5, 7]]]] 1 1 2 2 \<and>
   ssim [[[[2, 3], [5, 7]]]] [[[[2, 3], [5, 7]]]] 3 True = [1]"
proof -
  have h: "has_shape4 [[[[2, 3 :: real], [5, 7]]]] 1 1 2 2"
    by (simp add: has_shape4_def has_shape2_def less_Suc_eq numeral_2_eq_2)
  show ?thesis
    using h ssim_same_image [OF h, of 3] by simp
qed

lemma sum_list_concat: "sum_list (concat xss) = sum_list (map sum_list xss)"
  for xss :: "real list list"
  by (induction xss) simp_all

lemma sum_list_concat_rect:
  fixes xss :: "real list list"
  shows "sum_list (concat xss) = (\<Sum>i<length xss. sum_list (xss ! i))"
proof -
  have "sum_list (map sum_list xss) = (\<Sum>i<length xss. map sum_list xss ! i)"
    using sum_list_sum_nth [of "map sum_list xss"] by (simp add: atLeast0LessThan)
  then show ?thesis by (simp add: sum_list_concat)
qed

lemma length_concat_rect:
  assumes "\<And>i. i < length xss \<Longrightarrow> length (xss ! i) = m"
  shows "length (concat xss) = length xss * m"
  using assms
proof (induction xss)
  case Nil
  show ?case by simp
next
  case (Cons xs xss)
  have "length xs = m" using Cons.prems [of 0] by simp
  moreover have "length (concat xss) = length xss * m"
    using Cons.prems [of "Suc i" for i] by (intro Cons.IH) simp
  ultimately show ?case by simp
qed

lemma mean_block:
  fixes blk :: "real list list list"
  assumes "length blk = C" and "\<And>c. c < C \<Longrightarrow> has_shape2 (blk ! c) H W"
  shows "mean (concat (concat blk)) =
     (\<Sum>c<C. \<Sum>h<H. \<Sum>w<W. blk ! c ! h ! w) / real (C * H * W)"
proof -
  have l1: "length (concat blk) = C * H"
    using assms by (intro length_concat_rect [of blk H, unfolded assms(1)])
      (simp add: has_shape2_def)
  have rows: "length (concat blk ! r) = W" if "r < C * H" for r
  proof -
    have "concat blk ! r \<in> set (concat blk)"
      by (rule nth_mem) (simp add: l1 that)
    then obtain x where x: "x \<in> set blk" "concat blk ! r \<in> set x" by auto
    then obtain c where c: "c < C" "x = blk ! c"
      using assms(1) by (auto simp: in_set_conv_nth)
    have sh: "has_shape2 (blk ! c) H W" using assms(2) c(1) by simp
    obtain h where "h < H" "concat blk ! r = blk ! c ! h"
      using x(2) c(2) sh by (auto simp: in_set_conv_nth has_shape2_def)
    then show ?thesis using sh by (simp add: has_shape2_def)
  qed
  have l2: "length (concat (concat blk)) = C * H * W"
    using length_concat_rect [of "concat blk" W] rows l1 by simp
  have "sum_list (concat (concat blk)) = sum_list (map sum_list (concat blk))"
    by (simp add: sum_list_concat)
  also have "\<dots> = sum_list (concat (map (map sum_list) blk))"
    by (simp add: map_concat)
  also have "\<dots> = (\<Sum>c<C. sum_list (map sum_list (blk ! c)))"
    using assms(1) by (simp add: sum_list_concat_rect)
  also have "\<dots> = (\<Sum>c<C. \<Sum>h<H. \<Sum>w<W. blk ! c ! h ! w)"
  proof (rule sum.cong)
    fix c assume "c \<in> {..<C}"
    then have sh: "has_shape2 (blk ! c) H W" using assms(2) by simp
    have "sum_list (map sum_list (blk ! c)) = (\<Sum>h<H. sum_list (blk ! c ! h))"
      using sh by (simp add: sum_list_sum_nth atLeast0LessThan has_shape2_def)
    also have "\<dots> = (\<Sum>h<H. \<Sum>w<W. blk ! c ! h ! w)"
      using sh by (simp add: sum_list_sum_nth atLeast0LessThan has_shape2_def)
    finally show "sum_list (map sum_list (blk ! c)) = (\<Sum>h<H. \<Sum>w<W. blk ! c ! h ! w)" .
  qed simp
  finally show ?thesis by (simp add: mean_def l2)
qed


lemma sum_list_map_nth:
  fixes g :: "'a \<Rightarrow> real"
  shows "sum_list (map g xs) = (\<Sum>i<length xs. g (xs ! i))"
  using sum_list_sum_nth [of "map g xs"] by (simp add: atLeast0LessThan)

lemma mean_axis1_rank4_nth:
  fixes t :: "real list list list list"
  assumes "has_shape4 t B C H W" "1 \<le> C" "n < B"
  shows "mean_axis1_rank4 t ! n =
     map (\<lambda>h. map (\<lambda>w. (\<Sum>c<C. t ! n ! c ! h ! w) / real C) [0..<W]) [0..<H]"
proof -
  have lt: "length t = B" and lp: "length (t ! n) = C"
    and sh: "\<And>c. c < C \<Longrightarrow> has_shape2 (t ! n ! c) H W"
    using assms by (simp_all add: has_shape4_def)
  obtain p0 ps where p: "t ! n = p0 # ps" using lp assms(2) by (cases "t ! n") auto
  have p0: "has_shape2 p0 H W" using sh [of 0] assms(2) p by simp
  have "mean_axis1_rank4 t ! n =
      map (\<lambda>h. map (\<lambda>w. sum_list (map (\<lambda>pl. pl ! h ! w) (t ! n)) / real (length (t ! n)))
                    [0..<length (p0 ! h)]) [0..<length p0]"
    using assms(3) lt by (simp add: mean_axis1_rank4_def p)
  also have "\<dots> = map (\<lambda>h. map (\<lambda>w. (\<Sum>c<C. t ! n ! c ! h ! w) / real C) [0..<W]) [0..<H]"
    using p0 by (simp add: has_shape2_def sum_list_map_nth lp)
  finally show ?thesis .
qed

lemma mean_axis1_rank3_nth:
  fixes u :: "real list list list"
  assumes "length u = B" "n < B" "has_shape2 (u ! n) H W" "1 \<le> H"
  shows "mean_axis1_rank3 u ! n = map (\<lambda>w. (\<Sum>h<H. u ! n ! h ! w) / real H) [0..<W]"
proof -
  have lr: "length (u ! n) = H" using assms(3) by (simp add: has_shape2_def)
  obtain r0 rs where r: "u ! n = r0 # rs" using lr assms(4) by (cases "u ! n") auto
  have r0: "length r0 = W" using assms(3,4) r by (auto simp: has_shape2_def)
  have "mean_axis1_rank3 u ! n =
      map (\<lambda>w. sum_list (map (\<lambda>row. row ! w) (u ! n)) / real (length (u ! n))) [0..<length r0]"
    using assms(1,2) by (simp add: mean_axis1_rank3_def r)
  also have "\<dots> = map (\<lambda>w. (\<Sum>h<H. u ! n ! h ! w) / real H) [0..<W]"
    by (simp add: sum_list_map_nth lr r0)
  finally show ?thesis .
qed

lemma mean_of_means:
  fixes t :: "real list list list list"
  assumes s: "has_shape4 t B C H W" and C: "1 \<le> C" and H: "1 \<le> H" and W: "1 \<le> W"
    and n: "n < B"
  shows "mean_axis1_rank2 (mean_axis1_rank3 (mean_axis1_rank4 t)) ! n
           = mean (concat (concat (t ! n)))"
    and "length (mean_axis1_rank2 (mean_axis1_rank3 (mean_axis1_rank4 t))) = length t"
proof -
  show "length (mean_axis1_rank2 (mean_axis1_rank3 (mean_axis1_rank4 t))) = length t"
    by (simp add: mean_axis1_rank2_def mean_axis1_rank3_def mean_axis1_rank4_def)
  define u where "u = mean_axis1_rank4 t"
  have lu: "length u = B" using s by (simp add: u_def mean_axis1_rank4_def has_shape4_def)
  have un: "u ! n = map (\<lambda>h. map (\<lambda>w. (\<Sum>c<C. t ! n ! c ! h ! w) / real C) [0..<W]) [0..<H]"
    unfolding u_def by (rule mean_axis1_rank4_nth [OF s C n])
  have us: "has_shape2 (u ! n) H W" by (simp add: un has_shape2_def)
  define v where "v = mean_axis1_rank3 u"
  have lv: "length v = B" using lu by (simp add: v_def mean_axis1_rank3_def)
  have vn: "v ! n = map (\<lambda>w. (\<Sum>h<H. u ! n ! h ! w) / real H) [0..<W]"
    unfolding v_def by (rule mean_axis1_rank3_nth [OF lu n us H])
  have "mean_axis1_rank2 v ! n = mean (v ! n)"
    using lv n by (simp add: mean_axis1_rank2_def)
  also have "\<dots> = (\<Sum>w<W. (\<Sum>h<H. u ! n ! h ! w) / real H) / real W"
    by (simp add: mean_def vn sum_list_map_nth)
  also have "\<dots> = (\<Sum>w<W. (\<Sum>h<H. (\<Sum>c<C. t ! n ! c ! h ! w) / real C) / real H) / real W"
    by (simp add: un)
  also have "\<dots> = (\<Sum>w<W. \<Sum>h<H. \<Sum>c<C. t ! n ! c ! h ! w) / real (C * H * W)"
    by (simp add: sum_divide_distrib [symmetric] field_simps)
  also have "(\<Sum>w<W. \<Sum>h<H. \<Sum>c<C. t ! n ! c ! h ! w)
      = (\<Sum>c<C. \<Sum>h<H. \<Sum>w<W. t ! n ! c ! h ! w)"
  proof -
    have "(\<Sum>w<W. \<Sum>h<H. \<Sum>c<C. t ! n ! c ! h ! w)
        = (\<Sum>h<H. \<Sum>w<W. \<Sum>c<C. t ! n ! c ! h ! w)"
      by (rule sum.swap)
    also have "\<dots> = (\<Sum>h<H. \<Sum>c<C. \<Sum>w<W. t ! n ! c ! h ! w)"
      by (intro sum.cong refl sum.swap)
    also have "\<dots> = (\<Sum>c<C. \<Sum>h<H. \<Sum>w<W. t ! n ! c ! h ! w)"
      by (rule sum.swap)
    finally show ?thesis .
  qed
  also have "(\<Sum>c<C. \<Sum>h<H. \<Sum>w<W. t ! n ! c ! h ! w) / real (C * H * W)
      = mean (concat (concat (t ! n)))"
    using mean_block [of "t ! n" C H W] s n by (simp add: has_shape4_def)
  finally show "mean_axis1_rank2 (mean_axis1_rank3 (mean_axis1_rank4 t)) ! n
           = mean (concat (concat (t ! n)))"
    unfolding v_def u_def .
qed


text \<open>
  Claim C10. For two images of shape (B, C, H, W), \<open>ssim\<close> with \<open>size_average\<close> returns
  a single value, the mean of the SSIM map; without it, a tensor of shape (B,) whose
  entry for an example is the SSIM map of that example averaged over the channel and
  both spatial axes. \<open>weighted_mean\<close> returns a tensor of one element.
\<close>

theorem ssim_result_shape:
  fixes img1 img2 :: "real list list list list"
  assumes "has_shape4 img1 B C H W" and "has_shape4 img2 B C H W"
    and "1 \<le> B" and "1 \<le> C" and "1 \<le> H" and "1 \<le> W" and "1 \<le> window_size"
  shows "length (ssim img1 img2 window_size True) = 1 \<and>
    ssim img1 img2 window_size True =
      [mean (concat (concat (concat
         (ssim_map img1 img2 (create_window window_size C) window_size))))] \<and>
    length (ssim img1 img2 window_size False) = B \<and>
    (\<forall>n<B. ssim img1 img2 window_size False ! n =
       mean (concat (concat
         (ssim_map img1 img2 (create_window window_size C) window_size ! n)))) \<and>
    (broadcastable input weight \<longrightarrow>
       (\<exists>v. weighted_mean input weight = Inr (Tensor [Scalar v]))) \<and>
    (\<forall>r. weighted_mean input weight = Inr r \<longrightarrow> shape r = [1] \<and> numel r = 1)"
proof -
  define H' where "H' = H + 2 * (window_size div 2) + 1 - window_size"
  define W' where "W' = W + 2 * (window_size div 2) + 1 - window_size"
  define M where "M = ssim_map img1 img2 (create_window window_size C) window_size"
  have "H \<le> H'" "W \<le> W'"
    unfolding H'_def W'_def by (rule ssim_window_extent)+
  then have pos: "1 \<le> H'" "1 \<le> W'" using assms(5,6) by linarith+
  have ks: "has_shape2 (map (\<lambda>a. map (\<lambda>b. a * b) (gaussian window_size (3 / 2)))
                         (gaussian window_size (3 / 2))) window_size window_size"
    using kernel_props(1) [OF assms(7)] .
  have sh: "has_shape4 M B C H' W'"
    unfolding M_def create_window_kernel H'_def W'_def
    by (rule ssim_map_entries(1) [OF assms(1) assms(2) assms(5) ks assms(7)])
  have ch: "(case img1 of [] \<Rightarrow> 0 | planes # _ \<Rightarrow> length planes) = C"
    using assms(1,3) by (cases img1) (auto simp: has_shape4_def)
  have t: "ssim img1 img2 window_size True = [mean (concat (concat (concat M)))]"
    by (simp add: ssim_def ssim_inner_def ch M_def)
  have f: "ssim img1 img2 window_size False
      = mean_axis1_rank2 (mean_axis1_rank3 (mean_axis1_rank4 M))"
    by (simp add: ssim_def ssim_inner_def ch M_def)
  have lf: "length (ssim img1 img2 window_size False) = B"
    unfolding f using sh
    by (simp add: mean_axis1_rank2_def mean_axis1_rank3_def mean_axis1_rank4_def has_shape4_def)
  have nf: "\<forall>n<B. ssim img1 img2 window_size False ! n = mean (concat (concat (M ! n)))"
    unfolding f using mean_of_means(1) [OF sh assms(4) pos] by blast
  have w1: "broadcastable input weight \<longrightarrow>
       (\<exists>v. weighted_mean input weight = Inr (Tensor [Scalar v]))"
    by (simp add: weighted_mean_def tensor_multiply_def)
  have w2: "\<forall>r. weighted_mean input weight = Inr r \<longrightarrow> shape r = [1] \<and> numel r = 1"
    by (auto simp: weighted_mean_def tensor_multiply_def numel_def Let_def split: if_splits)
  show ?thesis using t lf nf w1 w2 unfolding M_def by simp
qed

theorem ssim_result_shape_witness:
  "has_shape4 [[[[2, 3 :: real], [5, 7]]], [[[1, 1], [1, 1]]]] 2 1 2 2 \<and>
   has_shape4 [[[[1, 4 :: real], [6, 7]]], [[[0, 1], [1, 2]]]] 2 1 2 2 \<and>
   length (ssim [[[[2, 3], [5, 7]]], [[[1, 1], [1, 1]]]]
                [[[[1, 4], [6, 7]]], [[[0, 1], [1, 2]]]] 3 True) = 1 \<and>
   length (ssim [[[[2, 3], [5, 7]]], [[[1, 1], [1, 1]]]]
                [[[[1, 4], [6, 7]]], [[[0, 1], [1, 2]]]] 3 False) = 2 \<and>
   weighted_mean (Tensor [Scalar 1, Scalar 2]) (Tensor [Scalar 1, Scalar 1])
     = Inr (Tensor [Scalar (3 / 2)])"
proof -
  have h1: "has_shape4 [[[[2, 3 :: real], [5, 7]]], [[[1, 1], [1, 1]]]] 2 1 2 2"
    by (simp add: has_shape4_def has_shape2_def less_Suc_eq numeral_2_eq_2)
  have h2: "has_shape4 [[[[1, 4 :: real], [6, 7]]], [[[0, 1], [1, 2]]]] 2 1 2 2"
    by (simp add: has_shape4_def has_shape2_def less_Suc_eq numeral_2_eq_2)
  have b: "broadcastable (Tensor [Scalar 1, Scalar 2]) (Tensor [Scalar 1, Scalar 1])"
    by (simp add: broadcastable_def)
  show ?thesis
    using h1 h2 b ssim_result_shape [OF h1 h2, of 3 "Tensor [Scalar 1, Scalar 2]"
        "Tensor [Scalar 1, Scalar 1]"]
    by (simp add: weighted_mean_def tensor_multiply_def sum_all_def numel_def)
qed

end
